theory Spec2Isabelle
  imports Main "HOL-Library.List_Lexorder" "HOL-Library.Product_Lexorder"
    "HOL-Library.Monad_Syntax"
begin

section \<open>The Safe transaction processor (history/indexers/tx\_processor.py)\<close>

text \<open>
  A shallow embedding of \<^verbatim>\<open>SafeTxProcessor\<close>: the wallet-state cache and the tables
  the processor reads and writes are an explicit state, every \<^verbatim>\<open>raise\<close> is a value of
  a sum type, and the collaborators the processor calls (the tracing client, the
  \<^verbatim>\<open>packaging\<close> version parser, the \<^verbatim>\<open>safe_eth\<close> hashing and signature parsing) are
  components of an environment record.
\<close>

subsection \<open>Exceptions\<close>

text \<open>
  The four subclasses of \<^verbatim>\<open>TxProcessorException\<close> of the module, the RPC error of
  \<^verbatim>\<open>web3\<close> that the tracing client may raise, and \<^verbatim>\<open>OtherException\<close> for every other
  Python exception the modelled code raises (a \<^verbatim>\<open>KeyError\<close> on a missing argument,
  \<^verbatim>\<open>InvalidVersion\<close> from the version parser); none of the last two is a
  \<^verbatim>\<open>TxProcessorException\<close>.
\<close>

datatype error =
    OwnerCannotBeRemoved
  | ModuleCannotBeDisabled
  | CannotFindPreviousTrace
  | UserOperationFailed
  | Web3RPCError
  | OtherException

fun is_TxProcessorException :: "error \<Rightarrow> bool" where
  "is_TxProcessorException OwnerCannotBeRemoved = True"
| "is_TxProcessorException ModuleCannotBeDisabled = True"
| "is_TxProcessorException CannotFindPreviousTrace = True"
| "is_TxProcessorException UserOperationFailed = True"
| "is_TxProcessorException Web3RPCError = False"
| "is_TxProcessorException OtherException = False"

subsection \<open>Versions\<close>

text \<open>
  A \<^verbatim>\<open>packaging.version.Version\<close> restricted to what \<^verbatim>\<open>base_version\<close> keeps: the epoch
  and the release segment. Two base versions compare by the pair of the epoch and the
  release with its trailing zeros removed, tuples being ordered lexicographically.
  The parser itself belongs to the library and is a parameter: \<open>None\<close> is
  \<^verbatim>\<open>InvalidVersion\<close>.
\<close>

type_synonym version = "nat \<times> nat list"

definition strip_trailing_zeros :: "nat list \<Rightarrow> nat list" where
  "strip_trailing_zeros r = rev (dropWhile (\<lambda>x. x = 0) (rev r))"

definition cmpkey :: "version \<Rightarrow> nat \<times> nat list" where
  "cmpkey v = (fst v, strip_trailing_zeros (snd v))"

definition version_less :: "version \<Rightarrow> version \<Rightarrow> bool" where
  "version_less a b \<longleftrightarrow> cmpkey a < cmpkey b"

definition version_le :: "version \<Rightarrow> version \<Rightarrow> bool" where
  "version_le a b \<longleftrightarrow> cmpkey a \<le> cmpkey b"

definition signature_breaking_versions :: "version list" where
  "signature_breaking_versions = [(0, [1, 0, 0]), (0, [1, 3, 0])]"

fun any_breaking :: "version \<Rightarrow> version \<Rightarrow> version list \<Rightarrow> bool" where
  "any_breaking old_version new_version [] = False"
| "any_breaking old_version new_version (breaking_version # rest) =
     (if version_less old_version breaking_version \<and> version_le breaking_version new_version
      then True
      else any_breaking old_version new_version rest)"

definition is_version_breaking_signatures ::
    "(string \<Rightarrow> version option) \<Rightarrow> string \<Rightarrow> string \<Rightarrow> bool option" where
  "is_version_breaking_signatures Version old_safe_version new_safe_version =
     (case Version old_safe_version of
        None \<Rightarrow> None
      | Some old_version \<Rightarrow>
          (case Version new_safe_version of
             None \<Rightarrow> None
           | Some new_version \<Rightarrow>
               (if version_less new_version old_version
                then Some (any_breaking new_version old_version signature_breaking_versions)
                else Some (any_breaking old_version new_version signature_breaking_versions))))"

text \<open>The smaller and the larger of two versions, in the order of the comparison keys.\<close>

definition version_min :: "version \<Rightarrow> version \<Rightarrow> version" where
  "version_min a b = (if version_less b a then b else a)"

definition version_max :: "version \<Rightarrow> version \<Rightarrow> version" where
  "version_max a b = (if version_less b a then a else b)"

text \<open>A parser for the witnesses: the versions of the deployed master copies.\<close>

definition Version_table :: "string \<Rightarrow> version option" where
  "Version_table = map_of
     [(''0.0.1'', (0, [0, 0, 1])), (''0.1.0'', (0, [0, 1, 0])), (''1.0.0'', (0, [1, 0, 0])),
      (''1.1.1'', (0, [1, 1, 1])), (''1.2.0'', (0, [1, 2, 0])), (''1.3.0'', (0, [1, 3, 0])),
      (''1.3.0+L2'', (0, [1, 3, 0])), (''1.4.1'', (0, [1, 4, 1])), (''1.4.1+L2'', (0, [1, 4, 1]))]"

subsection \<open>Data model (history/models.py)\<close>

type_synonym address = string
type_synonym bytes = "nat list"

definition NULL_ADDRESS :: address where
  "NULL_ADDRESS = ''0x0000000000000000000000000000000000000000''"

text \<open>
  The values of the JSON dictionary \<^verbatim>\<open>InternalTxDecoded.arguments\<close>: \<^verbatim>\<open>None\<close>, integers,
  strings (addresses and 0x-prefixed hexadecimal data) and lists of addresses.
\<close>

datatype val = VNone | VInt int | VStr string | VList "string list"

record log_entry =
  log_topics :: "string list"
  log_data :: string
  log_address :: "address option"

record ethereum_tx =
  tx_hash :: bytes
  transaction_index :: nat
  logs :: "log_entry list"

record internal_tx =
  internal_tx_id :: nat
  itx_ethereum_tx :: ethereum_tx
  itx_from :: address
  itx_to :: address
  gas_used :: int
  trace_address :: string
  itx_timestamp :: nat
  block_number :: nat

record internal_tx_decoded =
  decoded_internal_tx :: internal_tx
  function_name :: string
  arguments :: "string \<rightharpoonup> val"

text \<open>\<^verbatim>\<open>SafeStatusBase\<close>, the shape shared by \<^verbatim>\<open>SafeLastStatus\<close> and \<^verbatim>\<open>SafeStatus\<close>.\<close>

record safe_status =
  internal_tx :: internal_tx
  address :: address
  owners :: "address list"
  threshold :: int
  nonce :: int
  master_copy :: address
  fallback_handler :: address
  guard :: "address option"
  enabled_modules :: "address list"

record safe_contract =
  sc_ethereum_tx :: "bytes option"
  banned :: bool

record multisig_transaction =
  safe_tx_hash :: bytes
  mtx_created :: nat
  mtx_safe :: address
  mtx_ethereum_tx :: "bytes option"
  mtx_to :: address
  mtx_value :: int
  mtx_data :: "bytes option"
  mtx_operation :: int
  safe_tx_gas :: int
  base_gas :: int
  gas_price :: int
  gas_token :: address
  refund_receiver :: address
  mtx_nonce :: int
  signatures :: "bytes option"
  failed :: "bool option"
  trusted :: bool

record multisig_confirmation =
  conf_created :: nat
  conf_ethereum_tx :: "bytes option"
  conf_multisig_transaction :: "bytes option"
  multisig_transaction_hash :: bytes
  conf_owner :: address
  conf_signature :: "bytes option"
  conf_signature_type :: int

record module_transaction =
  mt_internal_tx :: nat
  mt_created :: nat
  mt_safe :: address
  mt_module :: address
  mt_to :: address
  mt_value :: int
  mt_data :: "bytes option"
  mt_operation :: int
  mt_failed :: bool

record safe_relevant_transaction =
  srt_ethereum_tx :: bytes
  srt_safe :: address
  srt_timestamp :: nat

record safe_contract_delegate =
  safe_contract_id :: "address option"
  delegator :: address
  delegate :: address

record safe_message_confirmation =
  smc_owner :: address
  smc_message_hash :: bytes

text \<open>
  The tables. \<open>processed\<close> holds the primary keys of the \<^verbatim>\<open>InternalTxDecoded\<close> rows whose
  \<^verbatim>\<open>processed\<close> flag is set, and \<open>processed_updates\<close> records, in order, the keys each
  write of that flag was issued for (one entry per statement).
\<close>

record database =
  safe_contracts :: "address \<rightharpoonup> safe_contract"
  safe_last_statuses :: "address \<rightharpoonup> safe_status"
  safe_statuses :: "safe_status list"
  safe_master_copies :: "address \<rightharpoonup> string"
  multisig_transactions :: "multisig_transaction list"
  multisig_confirmations :: "multisig_confirmation list"
  module_transactions :: "module_transaction list"
  safe_relevant_transactions :: "safe_relevant_transaction list"
  safe_contract_delegates :: "safe_contract_delegate list"
  safe_message_confirmations :: "safe_message_confirmation list"
  processed :: "nat set"
  processed_updates :: "nat list list"

text \<open>
  The processor: its \<^verbatim>\<open>safe_last_status_cache\<close> dictionary, the database, and the memo
  that \<^verbatim>\<open>functools.cache\<close> keeps for \<^verbatim>\<open>SafeMasterCopyManager.get_version_for_address\<close>.
  The memo maps an address that was looked up to what the first lookup returned, which
  is \<^verbatim>\<open>None\<close> when the table had no row for it; it belongs to the process, so no
  transaction rollback and no \<^verbatim>\<open>clear_cache\<close> touches it.
\<close>

record processor =
  safe_last_status_cache :: "address \<rightharpoonup> safe_status"
  db :: database
  version_for_address_cache :: "address \<rightharpoonup> string option"

subsection \<open>Collaborators\<close>

text \<open>
  What \<^verbatim>\<open>get_previous_trace\<close> of the tracing client does: it raises \<^verbatim>\<open>Web3RPCError\<close>,
  returns nothing, or returns a trace, of which \<^verbatim>\<open>build_from_trace\<close> keeps the caller
  \<^verbatim>\<open>trace["action"]["from"]\<close>.
\<close>

datatype trace_result = RaisesWeb3RPCError | NoTrace | Trace address

text \<open>The arguments of the \<^verbatim>\<open>SafeTx\<close> constructor, and a parsed \<^verbatim>\<open>SafeSignature\<close>.\<close>

record safe_tx =
  stx_safe :: address
  stx_to :: address
  stx_value :: int
  stx_data :: bytes
  stx_operation :: int
  stx_safe_tx_gas :: int
  stx_base_gas :: int
  stx_gas_price :: int
  stx_gas_token :: address
  stx_refund_receiver :: address
  stx_signatures :: bytes
  stx_safe_nonce :: int
  stx_safe_version :: string
  stx_chain_id :: int

record safe_signature =
  sig_owner :: address
  sig_signature :: bytes
  export_signature :: bytes
  signature_type :: int

record env =
  get_previous_trace :: "bytes \<Rightarrow> string \<Rightarrow> trace_result"
  Version :: "string \<Rightarrow> version option"
  HexBytes :: "string \<Rightarrow> bytes"
  address_bytes :: "address \<Rightarrow> bytes"
  safe_tx_failure_events_topics :: "bytes set"
  safe_tx_module_failure_topics :: "bytes set"
  get_chain_id :: int
  compute_safe_tx_hash :: "safe_tx \<Rightarrow> bytes"
  parse_signature :: "bytes \<Rightarrow> bytes \<Rightarrow> safe_signature list"
  build_for_owner :: "address \<Rightarrow> string \<Rightarrow> safe_signature"

subsection \<open>Reading arguments\<close>

text \<open>
  \<^verbatim>\<open>arguments[k]\<close> read at the type the decoder writes it with; \<open>None\<close> is the
  \<^verbatim>\<open>KeyError\<close> of a missing key (a value of another type is outside the model, and
  read as missing).
\<close>

definition arg_str :: "(string \<rightharpoonup> val) \<Rightarrow> string \<Rightarrow> string option" where
  "arg_str args k = (case args k of Some (VStr s) \<Rightarrow> Some s | _ \<Rightarrow> None)"

definition arg_int :: "(string \<rightharpoonup> val) \<Rightarrow> string \<Rightarrow> int option" where
  "arg_int args k = (case args k of Some (VInt n) \<Rightarrow> Some n | _ \<Rightarrow> None)"

definition arg_list :: "(string \<rightharpoonup> val) \<Rightarrow> string \<Rightarrow> string list option" where
  "arg_list args k = (case args k of Some (VList xs) \<Rightarrow> Some xs | _ \<Rightarrow> None)"

text \<open>An integer argument that the event-based decoder may leave as \<^verbatim>\<open>None\<close>.\<close>

definition arg_int_or_none :: "(string \<rightharpoonup> val) \<Rightarrow> string \<Rightarrow> int option option" where
  "arg_int_or_none args k =
     (case args k of Some (VInt n) \<Rightarrow> Some (Some n) | Some VNone \<Rightarrow> Some None | _ \<Rightarrow> None)"

subsection \<open>Cache and queries\<close>

definition clear_cache :: "address \<Rightarrow> processor \<Rightarrow> bool \<times> processor" where
  "clear_cache safe_address s =
     (if safe_address \<noteq> []
      then (safe_address \<in> dom (safe_last_status_cache s),
            s\<lparr>safe_last_status_cache := (safe_last_status_cache s)(safe_address := None)\<rparr>)
      else (True, s\<lparr>safe_last_status_cache := Map.empty\<rparr>))"

fun is_failed_logs :: "env \<Rightarrow> bytes \<Rightarrow> log_entry list \<Rightarrow> bool" where
  "is_failed_logs e h [] = False"
| "is_failed_logs e h (log # rest) =
     (if log_topics log \<noteq> [] \<and> log_data log \<noteq> []
         \<and> HexBytes e (hd (log_topics log)) \<in> safe_tx_failure_events_topics e
      then (if length (log_topics log) = 2 \<and> HexBytes e (log_topics log ! 1) = h then True
            else if take 32 (HexBytes e (log_data log)) = h then True
            else is_failed_logs e h rest)
      else is_failed_logs e h rest)"

definition is_failed :: "env \<Rightarrow> ethereum_tx \<Rightarrow> bytes \<Rightarrow> bool" where
  "is_failed e ethereum_tx h = is_failed_logs e h (logs ethereum_tx)"

fun is_module_failed_logs :: "env \<Rightarrow> address \<Rightarrow> address \<Rightarrow> log_entry list \<Rightarrow> bool" where
  "is_module_failed_logs e module_address safe_address [] = False"
| "is_module_failed_logs e module_address safe_address (log # rest) =
     (if length (log_topics log) = 2
         \<and> (case log_address log of Some a \<Rightarrow> a = safe_address | None \<Rightarrow> True)
         \<and> HexBytes e (log_topics log ! 0) \<in> safe_tx_module_failure_topics e
         \<and> (let t = HexBytes e (log_topics log ! 1) in drop (length t - 20) t)
             = address_bytes e module_address
      then True
      else is_module_failed_logs e module_address safe_address rest)"

definition is_module_failed :: "env \<Rightarrow> ethereum_tx \<Rightarrow> address \<Rightarrow> address \<Rightarrow> bool" where
  "is_module_failed e ethereum_tx module_address safe_address =
     is_module_failed_logs e module_address safe_address (logs ethereum_tx)"

text \<open>
  \<^verbatim>\<open>SafeMasterCopyManager.get_version_for_address\<close> under \<^verbatim>\<open>@cache\<close>: an address that
  was looked up before gives what it gave then; otherwise the table is read (\<open>None\<close>
  is \<^verbatim>\<open>DoesNotExist\<close>) and the answer is kept.
\<close>

definition get_version_for_address :: "address \<Rightarrow> processor \<Rightarrow> string option \<times> processor" where
  "get_version_for_address a s =
     (case version_for_address_cache s a of
        Some v \<Rightarrow> (v, s)
      | None \<Rightarrow>
          let v = safe_master_copies (db s) a
          in (v, s\<lparr>version_for_address_cache := (version_for_address_cache s)(a \<mapsto> v)\<rparr>))"

definition get_safe_version_from_master_copy ::
    "address \<Rightarrow> processor \<Rightarrow> string option \<times> processor" where
  "get_safe_version_from_master_copy mc s = get_version_for_address mc s"

text \<open>
  \<^verbatim>\<open>SafeStatusQuerySet.last_for_address\<close>: the first row for the address in the order
  \<^verbatim>\<open>sorted_by_mined\<close>, that is the one with the greatest nonce, then block number,
  transaction index and internal transaction id.
\<close>

definition mined_key :: "safe_status \<Rightarrow> int \<times> nat \<times> nat \<times> nat" where
  "mined_key st = (nonce st, block_number (internal_tx st),
                   transaction_index (itx_ethereum_tx (internal_tx st)),
                   internal_tx_id (internal_tx st))"

fun greatest_mined :: "safe_status list \<Rightarrow> safe_status option" where
  "greatest_mined [] = None"
| "greatest_mined (st # rest) =
     (case greatest_mined rest of
        None \<Rightarrow> Some st
      | Some st' \<Rightarrow> if mined_key st' < mined_key st then Some st else Some st')"

definition last_for_address :: "database \<Rightarrow> address \<Rightarrow> safe_status option" where
  "last_for_address d a = greatest_mined (filter (\<lambda>st. address st = a) (safe_statuses d))"

text \<open>
  \<^verbatim>\<open>SafeLastStatusManager.get_or_generate\<close>; \<open>None\<close> is \<^verbatim>\<open>DoesNotExist\<close>. When the row
  is rebuilt from the history it is written to the table.
\<close>

definition get_or_generate :: "address \<Rightarrow> processor \<Rightarrow> safe_status option \<times> processor" where
  "get_or_generate a s =
     (case safe_last_statuses (db s) a of
        Some st \<Rightarrow> (Some st, s)
      | None \<Rightarrow>
          (case last_for_address (db s) a of
             Some st \<Rightarrow>
               (Some st, s\<lparr>db := (db s)\<lparr>safe_last_statuses :=
                                          (safe_last_statuses (db s))(a \<mapsto> st)\<rparr>\<rparr>)
           | None \<Rightarrow> (None, s)))"

definition get_last_safe_status_for_address ::
    "address \<Rightarrow> processor \<Rightarrow> safe_status option \<times> processor" where
  "get_last_safe_status_for_address a s =
     (case safe_last_status_cache s a of
        Some st \<Rightarrow> (Some st, s)
      | None \<Rightarrow> get_or_generate a s)"

text \<open>
  The status object that \<^verbatim>\<open>get_last_safe_status_for_address\<close> returns is the cached
  object itself when the cache has one, so an assignment to one of its fields is seen
  through the cache at once; an object loaded from the database is not shared.
\<close>

definition mutate_in_place :: "address \<Rightarrow> safe_status \<Rightarrow> processor \<Rightarrow> processor" where
  "mutate_in_place a st s =
     (if safe_last_status_cache s a \<noteq> None
      then s\<lparr>safe_last_status_cache := (safe_last_status_cache s)(a \<mapsto> st)\<rparr>
      else s)"

text \<open>
  Modelled from the spec: the signal handler that runs when a \<^verbatim>\<open>SafeLastStatus\<close> is
  saved is not in the sources; by the docstring of \<^verbatim>\<open>store_new_safe_status\<close> and the
  spec (a snapshot is appended, and the latest row upserted, as a pair) it adds the
  saved status to the \<^verbatim>\<open>SafeStatus\<close> history.
\<close>

definition add_to_historical_table :: "safe_status \<Rightarrow> database \<Rightarrow> database" where
  "add_to_historical_table st d = d\<lparr>safe_statuses := safe_statuses d @ [st]\<rparr>"

definition store_new_safe_status :: "safe_status \<Rightarrow> internal_tx \<Rightarrow> processor \<Rightarrow> processor" where
  "store_new_safe_status safe_last_status itx s =
     (let st = safe_last_status\<lparr>internal_tx := itx\<rparr>;
          d = add_to_historical_table st
                ((db s)\<lparr>safe_last_statuses := (safe_last_statuses (db s))(address st \<mapsto> st)\<rparr>)
      in s\<lparr>db := d, safe_last_status_cache := (safe_last_status_cache s)(address st \<mapsto> st)\<rparr>)"

subsection \<open>Table operations\<close>

text \<open>Python's truth value of a nullable key: \<^verbatim>\<open>not x\<close> holds for \<^verbatim>\<open>None\<close> and for an empty value.\<close>

definition falsy :: "'a list option \<Rightarrow> bool" where
  "falsy x \<longleftrightarrow> x = None \<or> x = Some []"

definition remove_delegates_for_owner_in_safe :: "address \<Rightarrow> address \<Rightarrow> database \<Rightarrow> database" where
  "remove_delegates_for_owner_in_safe safe_address owner_address d =
     d\<lparr>safe_contract_delegates :=
         filter (\<lambda>g. \<not> (safe_contract_id g = Some safe_address \<and> delegator g = owner_address))
           (safe_contract_delegates d)\<rparr>"

definition find_multisig_transaction :: "database \<Rightarrow> bytes \<Rightarrow> multisig_transaction option" where
  "find_multisig_transaction d h = find (\<lambda>t. safe_tx_hash t = h) (multisig_transactions d)"

definition unused_confirmation ::
    "database \<Rightarrow> address \<Rightarrow> int \<Rightarrow> address \<Rightarrow> multisig_confirmation \<Rightarrow> bool" where
  "unused_confirmation d safe current_safe_none owner c \<longleftrightarrow>
     conf_owner c = owner \<and>
     (case conf_multisig_transaction c of
        None \<Rightarrow> False
      | Some h \<Rightarrow>
          (case find_multisig_transaction d h of
             None \<Rightarrow> False
           | Some t \<Rightarrow> mtx_ethereum_tx t = None \<and> mtx_safe t = safe
                        \<and> current_safe_none \<le> mtx_nonce t))"

definition remove_unused_confirmations ::
    "address \<Rightarrow> int \<Rightarrow> address \<Rightarrow> database \<Rightarrow> database" where
  "remove_unused_confirmations safe current_safe_none owner d =
     d\<lparr>multisig_confirmations :=
         filter (\<lambda>c. \<not> unused_confirmation d safe current_safe_none owner c)
           (multisig_confirmations d)\<rparr>"

text \<open>
  \<^verbatim>\<open>MultisigTransactionQuerySet.queued\<close>: the greatest nonce among the executed
  transactions of the Safe, \<open>-1\<close> when there is none, and the transactions of the Safe
  that are not executed and have a greater nonce.
\<close>

definition max_executed_nonce :: "database \<Rightarrow> address \<Rightarrow> int" where
  "max_executed_nonce d safe_address =
     (case map mtx_nonce (filter (\<lambda>t. mtx_ethereum_tx t \<noteq> None \<and> mtx_safe t = safe_address)
                            (multisig_transactions d)) of
        [] \<Rightarrow> - 1
      | n # ns \<Rightarrow> fold max ns n)"

definition queued :: "database \<Rightarrow> address \<Rightarrow> multisig_transaction \<Rightarrow> bool" where
  "queued d safe_address t \<longleftrightarrow>
     mtx_ethereum_tx t = None \<and> max_executed_nonce d safe_address < mtx_nonce t
     \<and> mtx_safe t = safe_address"

text \<open>
  \<^verbatim>\<open>queued(contract_address).delete()\<close>; the confirmations that reference a deleted
  transaction go with it (\<^verbatim>\<open>on_delete=CASCADE\<close>).
\<close>

definition delete_queued :: "address \<Rightarrow> database \<Rightarrow> database" where
  "delete_queued safe_address d =
     d\<lparr>multisig_transactions := filter (\<lambda>t. \<not> queued d safe_address t) (multisig_transactions d),
       multisig_confirmations :=
         filter (\<lambda>c. case conf_multisig_transaction c of
                       None \<Rightarrow> True
                     | Some h \<Rightarrow> (case find_multisig_transaction d h of
                                    None \<Rightarrow> True
                                  | Some t \<Rightarrow> \<not> queued d safe_address t))
           (multisig_confirmations d)\<rparr>"

definition get_or_create_module_transaction :: "module_transaction \<Rightarrow> database \<Rightarrow> database" where
  "get_or_create_module_transaction m d =
     (if \<exists>m' \<in> set (module_transactions d). mt_internal_tx m' = mt_internal_tx m then d
      else d\<lparr>module_transactions := module_transactions d @ [m]\<rparr>)"

definition get_or_create_relevant_transaction ::
    "safe_relevant_transaction \<Rightarrow> database \<Rightarrow> database" where
  "get_or_create_relevant_transaction r d =
     (if \<exists>r' \<in> set (safe_relevant_transactions d).
           srt_ethereum_tx r' = srt_ethereum_tx r \<and> srt_safe r' = srt_safe r then d
      else d\<lparr>safe_relevant_transactions := safe_relevant_transactions d @ [r]\<rparr>)"

definition get_or_create_multisig_transaction ::
    "multisig_transaction \<Rightarrow> database \<Rightarrow> multisig_transaction \<times> database" where
  "get_or_create_multisig_transaction t d =
     (case find_multisig_transaction d (safe_tx_hash t) of
        Some t' \<Rightarrow> (t', d)
      | None \<Rightarrow> (t, d\<lparr>multisig_transactions := multisig_transactions d @ [t]\<rparr>))"

definition save_multisig_transaction :: "multisig_transaction \<Rightarrow> database \<Rightarrow> database" where
  "save_multisig_transaction t d =
     d\<lparr>multisig_transactions :=
         map (\<lambda>t'. if safe_tx_hash t' = safe_tx_hash t then t else t') (multisig_transactions d)\<rparr>"

definition same_confirmation :: "multisig_confirmation \<Rightarrow> multisig_confirmation \<Rightarrow> bool" where
  "same_confirmation c c' \<longleftrightarrow>
     multisig_transaction_hash c = multisig_transaction_hash c' \<and> conf_owner c = conf_owner c'"

definition get_or_create_confirmation ::
    "multisig_confirmation \<Rightarrow> database \<Rightarrow> multisig_confirmation \<times> database" where
  "get_or_create_confirmation c d =
     (case find (same_confirmation c) (multisig_confirmations d) of
        Some c' \<Rightarrow> (c', d)
      | None \<Rightarrow> (c, d\<lparr>multisig_confirmations := multisig_confirmations d @ [c]\<rparr>))"

definition save_confirmation :: "multisig_confirmation \<Rightarrow> database \<Rightarrow> database" where
  "save_confirmation c d =
     d\<lparr>multisig_confirmations :=
         map (\<lambda>c'. if same_confirmation c c' then c else c') (multisig_confirmations d)\<rparr>"

subsection \<open>swap\_owner and disable\_module\<close>

definition swap_owner ::
    "internal_tx \<Rightarrow> safe_status \<Rightarrow> address \<Rightarrow> address option \<Rightarrow> processor
     \<Rightarrow> (error + safe_status) \<times> processor" where
  "swap_owner itx safe_status owner new_owner s =
     (let contract_address = itx_from itx in
      if owner \<notin> set (owners safe_status) then (Inl OwnerCannotBeRemoved, s)
      else
        let (safe_status', d1) =
              (if falsy new_owner
               then (safe_status\<lparr>owners := remove1 owner (owners safe_status)\<rparr>,
                     remove_delegates_for_owner_in_safe (address safe_status) owner (db s))
               else
                 let new_owners = map (\<lambda>current_owner.
                                         if current_owner = owner then the new_owner
                                         else current_owner) (owners safe_status)
                 in (safe_status\<lparr>owners := new_owners\<rparr>,
                     if owners safe_status \<noteq> new_owners
                     then remove_delegates_for_owner_in_safe (address safe_status) owner (db s)
                     else db s));
            d2 = remove_unused_confirmations contract_address (nonce safe_status') owner d1;
            d3 = d2\<lparr>safe_message_confirmations :=
                      filter (\<lambda>m. smc_owner m \<noteq> owner) (safe_message_confirmations d2)\<rparr>
        in (Inr safe_status', s\<lparr>db := d3\<rparr>))"

definition disable_module ::
    "internal_tx \<Rightarrow> safe_status \<Rightarrow> address \<Rightarrow> error + safe_status" where
  "disable_module itx safe_status module =
     (if module \<notin> set (enabled_modules safe_status) then Inl ModuleCannotBeDisabled
      else Inr (safe_status\<lparr>enabled_modules := remove1 module (enabled_modules safe_status)\<rparr>))"

subsection \<open>The branches of \_\_process\_decoded\_transaction\<close>

type_synonym outcome = "(error + bool) \<times> processor"

text \<open>\<^verbatim>\<open>function_name == "setup"\<close>: index a new Safe.\<close>

definition process_setup :: "internal_tx \<Rightarrow> (string \<rightharpoonup> val) \<Rightarrow> processor \<Rightarrow> outcome" where
  "process_setup itx args s =
     (let contract_address = itx_from itx; master_copy = itx_to itx in
      case do {
             new_owners \<leftarrow> arg_list args ''_owners'';
             new_threshold \<leftarrow> arg_int args ''_threshold'';
             new_handler \<leftarrow> (if ''fallbackHandler'' \<in> dom args
                                  then arg_str args ''fallbackHandler'' else Some NULL_ADDRESS);
             Some (new_owners, new_threshold, new_handler)
           } of
        None \<Rightarrow> (Inl OtherException, s)
      | Some (new_owners, new_threshold, new_handler) \<Rightarrow>
          let tx_id = tx_hash (itx_ethereum_tx itx);
              safe_contract =
                (case safe_contracts (db s) contract_address of
                   Some sc \<Rightarrow> if falsy (sc_ethereum_tx sc)
                              then sc\<lparr>sc_ethereum_tx := Some tx_id\<rparr> else sc
                 | None \<Rightarrow> \<lparr>sc_ethereum_tx = Some tx_id, banned = False\<rparr>);
              s1 = s\<lparr>db := (db s)\<lparr>safe_contracts :=
                                     (safe_contracts (db s))(contract_address \<mapsto> safe_contract)\<rparr>\<rparr>
          in (Inr True,
              store_new_safe_status
                \<lparr>internal_tx = itx, address = contract_address, owners = new_owners,
                 threshold = new_threshold, nonce = 0, master_copy = master_copy,
                 fallback_handler = new_handler, guard = None, enabled_modules = []\<rparr>
                itx s1))"

text \<open>
  \<^verbatim>\<open>addOwnerWithThreshold\<close>, \<^verbatim>\<open>removeOwner\<close>, \<^verbatim>\<open>removeOwnerWithThreshold\<close>: the threshold
  is assigned before the owner is read and before \<^verbatim>\<open>swap_owner\<close> may raise.
\<close>

definition process_owner_modification ::
    "internal_tx \<Rightarrow> string \<Rightarrow> (string \<rightharpoonup> val) \<Rightarrow> safe_status \<Rightarrow> processor \<Rightarrow> outcome" where
  "process_owner_modification itx fname args safe_last_status s =
     (case arg_int_or_none args ''_threshold'' of
        None \<Rightarrow> (Inl OtherException, s)
      | Some t \<Rightarrow>
          let st1 = safe_last_status\<lparr>threshold :=
                      (case t of Some n \<Rightarrow> if n \<noteq> 0 then n else threshold safe_last_status
                               | None \<Rightarrow> threshold safe_last_status)\<rparr>;
              s1 = mutate_in_place (itx_from itx) st1 s
          in case arg_str args ''owner'' of
               None \<Rightarrow> (Inl OtherException, s1)
             | Some owner \<Rightarrow>
                 if fname = ''addOwnerWithThreshold''
                 then (Inr True, store_new_safe_status (st1\<lparr>owners := owner # owners st1\<rparr>) itx s1)
                 else (case swap_owner itx st1 owner None s1 of
                         (Inl err, s2) \<Rightarrow> (Inl err, s2)
                       | (Inr st2, s2) \<Rightarrow> (Inr True, store_new_safe_status st2 itx s2)))"

definition process_swap_owner ::
    "internal_tx \<Rightarrow> (string \<rightharpoonup> val) \<Rightarrow> safe_status \<Rightarrow> processor \<Rightarrow> outcome" where
  "process_swap_owner itx args safe_last_status s =
     (case do {
             old_owner \<leftarrow> arg_str args ''oldOwner'';
             new_owner \<leftarrow> arg_str args ''newOwner'';
             Some (old_owner, new_owner)
           } of
        None \<Rightarrow> (Inl OtherException, s)
      | Some (old_owner, new_owner) \<Rightarrow>
          (case swap_owner itx safe_last_status old_owner (Some new_owner) s of
             (Inl err, s1) \<Rightarrow> (Inl err, s1)
           | (Inr st1, s1) \<Rightarrow> (Inr True, store_new_safe_status st1 itx s1)))"

definition process_change_threshold ::
    "internal_tx \<Rightarrow> (string \<rightharpoonup> val) \<Rightarrow> safe_status \<Rightarrow> processor \<Rightarrow> outcome" where
  "process_change_threshold itx args safe_last_status s =
     (case arg_int args ''_threshold'' of
        None \<Rightarrow> (Inl OtherException, s)
      | Some t \<Rightarrow> (Inr True, store_new_safe_status (safe_last_status\<lparr>threshold := t\<rparr>) itx s))"

text \<open>
  \<^verbatim>\<open>changeMasterCopy\<close>. A version is known when the lookup gives a non-empty string; an
  \<^verbatim>\<open>InvalidVersion\<close> of the version parser leaves the branch after the master copy was
  assigned.
\<close>

definition process_change_master_copy ::
    "env \<Rightarrow> internal_tx \<Rightarrow> (string \<rightharpoonup> val) \<Rightarrow> safe_status \<Rightarrow> processor \<Rightarrow> outcome" where
  "process_change_master_copy e itx args safe_last_status s =
     (let contract_address = itx_from itx;
          (old_safe_version, s1) =
            get_safe_version_from_master_copy (master_copy safe_last_status) s
      in case arg_str args ''_masterCopy'' of
           None \<Rightarrow> (Inl OtherException, s1)
         | Some mc \<Rightarrow>
             let st1 = safe_last_status\<lparr>master_copy := mc\<rparr>;
                 s2 = mutate_in_place contract_address st1 s1;
                 (new_safe_version, s3) =
                   get_safe_version_from_master_copy (master_copy st1) s2
             in if \<not> falsy old_safe_version \<and> \<not> falsy new_safe_version
                then (case is_version_breaking_signatures (Version e)
                             (the old_safe_version) (the new_safe_version) of
                        None \<Rightarrow> (Inl OtherException, s3)
                      | Some True \<Rightarrow>
                          (Inr True,
                           store_new_safe_status st1 itx
                             (s3\<lparr>db := delete_queued contract_address (db s3)\<rparr>))
                      | Some False \<Rightarrow> (Inr True, store_new_safe_status st1 itx s3))
                else (Inr True, store_new_safe_status st1 itx s3))"

definition process_set_fallback_handler ::
    "internal_tx \<Rightarrow> (string \<rightharpoonup> val) \<Rightarrow> safe_status \<Rightarrow> processor \<Rightarrow> outcome" where
  "process_set_fallback_handler itx args safe_last_status s =
     (case arg_str args ''handler'' of
        None \<Rightarrow> (Inl OtherException, s)
      | Some h \<Rightarrow>
          (Inr True, store_new_safe_status (safe_last_status\<lparr>fallback_handler := h\<rparr>) itx s))"

definition process_set_guard ::
    "internal_tx \<Rightarrow> (string \<rightharpoonup> val) \<Rightarrow> safe_status \<Rightarrow> processor \<Rightarrow> outcome" where
  "process_set_guard itx args safe_last_status s =
     (case arg_str args ''guard'' of
        None \<Rightarrow> (Inl OtherException, s)
      | Some g \<Rightarrow>
          (Inr True,
           store_new_safe_status
             (safe_last_status\<lparr>guard := (if g \<noteq> NULL_ADDRESS then Some g else None)\<rparr>) itx s))"

definition process_enable_module ::
    "internal_tx \<Rightarrow> (string \<rightharpoonup> val) \<Rightarrow> safe_status \<Rightarrow> processor \<Rightarrow> outcome" where
  "process_enable_module itx args safe_last_status s =
     (case arg_str args ''module'' of
        None \<Rightarrow> (Inl OtherException, s)
      | Some m \<Rightarrow>
          (Inr True,
           store_new_safe_status
             (safe_last_status\<lparr>enabled_modules := enabled_modules safe_last_status @ [m]\<rparr>)
             itx s))"

definition process_disable_module ::
    "internal_tx \<Rightarrow> (string \<rightharpoonup> val) \<Rightarrow> safe_status \<Rightarrow> processor \<Rightarrow> outcome" where
  "process_disable_module itx args safe_last_status s =
     (case arg_str args ''module'' of
        None \<Rightarrow> (Inl OtherException, s)
      | Some m \<Rightarrow>
          (case disable_module itx safe_last_status m of
             Inl err \<Rightarrow> (Inl err, s)
           | Inr st1 \<Rightarrow> (Inr True, store_new_safe_status st1 itx s)))"

text \<open>
  \<^verbatim>\<open>execTransactionFromModule\<close> and \<^verbatim>\<open>execTransactionFromModuleReturnData\<close>. Without a
  \<^verbatim>\<open>module\<close> argument the previous trace is looked up inside \<^verbatim>\<open>try\<close>, and
  \<^verbatim>\<open>except Web3RPCError\<close> sets \<^verbatim>\<open>previous_trace = None\<close>. The call of the account
  abstraction service that follows only writes to tables of another application and is
  left out.
\<close>

definition resolve_module_address ::
    "env \<Rightarrow> internal_tx \<Rightarrow> (string \<rightharpoonup> val) \<Rightarrow> error + address" where
  "resolve_module_address e itx args =
     (if ''module'' \<in> dom args
      then (case arg_str args ''module'' of None \<Rightarrow> Inl OtherException | Some m \<Rightarrow> Inr m)
      else
        let previous_trace =
              (case get_previous_trace e (tx_hash (itx_ethereum_tx itx)) (trace_address itx) of
                 RaisesWeb3RPCError \<Rightarrow> None
               | NoTrace \<Rightarrow> None
               | Trace caller \<Rightarrow> Some caller)
        in case previous_trace of
             None \<Rightarrow> Inl CannotFindPreviousTrace
           | Some caller \<Rightarrow> Inr caller)"

definition process_module_transaction ::
    "env \<Rightarrow> internal_tx \<Rightarrow> (string \<rightharpoonup> val) \<Rightarrow> processor \<Rightarrow> outcome" where
  "process_module_transaction e itx args s =
     (let contract_address = itx_from itx; etx = itx_ethereum_tx itx in
      case resolve_module_address e itx args of
        Inl err \<Rightarrow> (Inl err, s)
      | Inr module_address \<Rightarrow>
          let is_failed_module = is_module_failed e etx module_address contract_address in
          case do {
                 data \<leftarrow> arg_str args ''data'';
                 to \<leftarrow> arg_str args ''to'';
                 v \<leftarrow> arg_int args ''value'';
                 operation \<leftarrow> arg_int args ''operation'';
                 Some (data, to, v, operation)
               } of
            None \<Rightarrow> (Inl OtherException, s)
          | Some (data, to, v, operation) \<Rightarrow>
              let module_data = HexBytes e data;
                  d1 = get_or_create_module_transaction
                         \<lparr>mt_internal_tx = internal_tx_id itx, mt_created = itx_timestamp itx,
                          mt_safe = contract_address, mt_module = module_address, mt_to = to,
                          mt_value = v,
                          mt_data = (if module_data \<noteq> [] then Some module_data else None),
                          mt_operation = operation, mt_failed = is_failed_module\<rparr> (db s);
                  d2 = get_or_create_relevant_transaction
                         \<lparr>srt_ethereum_tx = tx_hash etx, srt_safe = contract_address,
                          srt_timestamp = itx_timestamp itx\<rparr> d1
              in (Inr True, s\<lparr>db := d2\<rparr>))"

text \<open>
  \<^verbatim>\<open>approveHash\<close>. Here the lookup of the previous trace is not inside a \<^verbatim>\<open>try\<close>: what
  the tracing client raises leaves the function as it is.
\<close>

definition resolve_approving_owner ::
    "env \<Rightarrow> internal_tx \<Rightarrow> (string \<rightharpoonup> val) \<Rightarrow> error + address" where
  "resolve_approving_owner e itx args =
     (if ''owner'' \<in> dom args
      then (case arg_str args ''owner'' of None \<Rightarrow> Inl OtherException | Some a \<Rightarrow> Inr a)
      else
        (case get_previous_trace e (tx_hash (itx_ethereum_tx itx)) (trace_address itx) of
           RaisesWeb3RPCError \<Rightarrow> Inl Web3RPCError
         | NoTrace \<Rightarrow> Inl CannotFindPreviousTrace
         | Trace caller \<Rightarrow> Inr caller))"

definition process_approve_hash ::
    "env \<Rightarrow> internal_tx \<Rightarrow> (string \<rightharpoonup> val) \<Rightarrow> processor \<Rightarrow> outcome" where
  "process_approve_hash e itx args s =
     (let etx = itx_ethereum_tx itx in
      case arg_str args ''hashToApprove'' of
        None \<Rightarrow> (Inl OtherException, s)
      | Some multisig_tx_hash \<Rightarrow>
          (case resolve_approving_owner e itx args of
             Inl err \<Rightarrow> (Inl err, s)
           | Inr owner \<Rightarrow>
               let sg = build_for_owner e owner multisig_tx_hash;
                   (confirmation, d1) =
                     get_or_create_confirmation
                       \<lparr>conf_created = itx_timestamp itx, conf_ethereum_tx = Some (tx_hash etx),
                        conf_multisig_transaction = None,
                        multisig_transaction_hash = HexBytes e multisig_tx_hash,
                        conf_owner = owner, conf_signature = Some (export_signature sg),
                        conf_signature_type = signature_type sg\<rparr> (db s);
                   d2 = (if falsy (conf_ethereum_tx confirmation)
                         then save_confirmation
                                (confirmation\<lparr>conf_ethereum_tx := Some (tx_hash etx)\<rparr>) d1
                         else d1)
               in (Inr True, s\<lparr>db := d2\<rparr>)))"

text \<open>\<^verbatim>\<open>execTransaction\<close>: the loop over the parsed signatures, then the branch.\<close>

fun store_confirmations ::
    "internal_tx \<Rightarrow> bytes \<Rightarrow> safe_signature list \<Rightarrow> database \<Rightarrow> database" where
  "store_confirmations itx h [] d = d"
| "store_confirmations itx h (sg # rest) d =
     (let (confirmation, d1) =
            get_or_create_confirmation
              \<lparr>conf_created = itx_timestamp itx, conf_ethereum_tx = None,
               conf_multisig_transaction = Some h, multisig_transaction_hash = h,
               conf_owner = sig_owner sg, conf_signature = Some (export_signature sg),
               conf_signature_type = signature_type sg\<rparr> d;
          d2 = (if conf_signature confirmation \<noteq> Some (sig_signature sg)
                then save_confirmation
                       (confirmation\<lparr>conf_signature := Some (export_signature sg),
                                      conf_signature_type := signature_type sg\<rparr>) d1
                else d1)
      in store_confirmations itx h rest d2)"

definition resolve_nonce :: "(string \<rightharpoonup> val) \<Rightarrow> safe_status \<Rightarrow> int option" where
  "resolve_nonce args safe_last_status =
     (if ''nonce'' \<in> dom args then arg_int args ''nonce'' else Some (nonce safe_last_status))"

text \<open>
  \<^verbatim>\<open>base_gas\<close> and \<^verbatim>\<open>safe_version\<close>: with a \<^verbatim>\<open>baseGas\<close> argument the version of the
  master copy is looked up (\<^verbatim>\<open>or "1.3.0"\<close> when the lookup gives nothing), which may
  fill the memo of the lookup.
\<close>

definition exec_transaction_base_gas ::
    "(string \<rightharpoonup> val) \<Rightarrow> safe_status \<Rightarrow> processor \<Rightarrow> (int \<times> string) option \<times> processor" where
  "exec_transaction_base_gas args safe_last_status s =
     (if ''baseGas'' \<in> dom args
      then (case arg_int args ''baseGas'' of
              None \<Rightarrow> (None, s)
            | Some bg \<Rightarrow>
                let (v, s1) = get_safe_version_from_master_copy (master_copy safe_last_status) s
                in (Some (bg, if falsy v then ''1.3.0'' else the v), s1))
      else (case arg_int args ''dataGas'' of
              None \<Rightarrow> (None, s)
            | Some bg \<Rightarrow> (Some (bg, ''0.0.1''), s)))"

text \<open>The \<^verbatim>\<open>SafeTx\<close> that the branch builds from the arguments, with the resolved nonce.\<close>

definition exec_transaction_safe_tx ::
    "env \<Rightarrow> internal_tx \<Rightarrow> (string \<rightharpoonup> val) \<Rightarrow> safe_status \<Rightarrow> processor
     \<Rightarrow> (int \<times> safe_tx) option \<times> processor" where
  "exec_transaction_safe_tx e itx args safe_last_status s =
     (case resolve_nonce args safe_last_status of
        None \<Rightarrow> (None, s)
      | Some n \<Rightarrow>
          (case exec_transaction_base_gas args safe_last_status s of
             (None, s1) \<Rightarrow> (None, s1)
           | (Some (bg, safe_version), s1) \<Rightarrow>
               (do {
                  to \<leftarrow> arg_str args ''to'';
                  v \<leftarrow> arg_int args ''value'';
                  data \<leftarrow> arg_str args ''data'';
                  operation \<leftarrow> arg_int args ''operation'';
                  stg \<leftarrow> arg_int args ''safeTxGas'';
                  gp \<leftarrow> arg_int args ''gasPrice'';
                  gt \<leftarrow> arg_str args ''gasToken'';
                  rr \<leftarrow> arg_str args ''refundReceiver'';
                  sigs \<leftarrow> arg_str args ''signatures'';
                  Some (n, \<lparr>stx_safe = itx_from itx, stx_to = to, stx_value = v,
                            stx_data = HexBytes e data, stx_operation = operation,
                            stx_safe_tx_gas = stg, stx_base_gas = bg, stx_gas_price = gp,
                            stx_gas_token = gt, stx_refund_receiver = rr,
                            stx_signatures = HexBytes e sigs, stx_safe_nonce = n,
                            stx_safe_version = safe_version, stx_chain_id = get_chain_id e\<rparr>)
                }, s1)))"

text \<open>
  The rows the branch writes: the \<^verbatim>\<open>MultisigTransaction\<close>, the relevant-transaction
  marker, the fields filled in when the execution is seen first, the confirmations.
\<close>

definition store_exec_transaction :: "env \<Rightarrow> internal_tx \<Rightarrow> safe_tx \<Rightarrow> database \<Rightarrow> database" where
  "store_exec_transaction e itx stx d =
     (let contract_address = itx_from itx; etx = itx_ethereum_tx itx;
          h = compute_safe_tx_hash e stx;
          is_failed_tx = is_failed e etx h;
          (multisig_tx, d1) =
            get_or_create_multisig_transaction
              \<lparr>safe_tx_hash = h, mtx_created = itx_timestamp itx,
               mtx_safe = contract_address, mtx_ethereum_tx = Some (tx_hash etx),
               mtx_to = stx_to stx, mtx_value = stx_value stx,
               mtx_data = (if stx_data stx \<noteq> [] then Some (stx_data stx) else None),
               mtx_operation = stx_operation stx, safe_tx_gas = stx_safe_tx_gas stx,
               base_gas = stx_base_gas stx, gas_price = stx_gas_price stx,
               gas_token = stx_gas_token stx, refund_receiver = stx_refund_receiver stx,
               mtx_nonce = stx_safe_nonce stx, signatures = Some (stx_signatures stx),
               failed = Some is_failed_tx, trusted = True\<rparr> d;
          d2 = get_or_create_relevant_transaction
                 \<lparr>srt_ethereum_tx = tx_hash etx, srt_safe = contract_address,
                  srt_timestamp = itx_timestamp itx\<rparr> d1;
          d3 = (if falsy (mtx_ethereum_tx multisig_tx)
                then save_multisig_transaction
                       (multisig_tx\<lparr>mtx_ethereum_tx := Some (tx_hash etx),
                                    failed := Some is_failed_tx,
                                    signatures := Some (stx_signatures stx),
                                    trusted := True\<rparr>) d2
                else d2)
      in store_confirmations itx h (parse_signature e (stx_signatures stx) h) d3)"

definition process_exec_transaction ::
    "env \<Rightarrow> internal_tx \<Rightarrow> (string \<rightharpoonup> val) \<Rightarrow> safe_status \<Rightarrow> processor \<Rightarrow> outcome" where
  "process_exec_transaction e itx args safe_last_status s =
     (case exec_transaction_safe_tx e itx args safe_last_status s of
        (None, s1) \<Rightarrow> (Inl OtherException, s1)
      | (Some (n, stx), s1) \<Rightarrow>
          (Inr True,
           store_new_safe_status (safe_last_status\<lparr>nonce := n + 1\<rparr>) itx
             (s1\<lparr>db := store_exec_transaction e itx stx (db s1)\<rparr>)))"

subsection \<open>\_\_process\_decoded\_transaction\<close>

text \<open>
  The private method \<^verbatim>\<open>__process_decoded_transaction\<close>, with the order of its
  \<^verbatim>\<open>if\<close>/\<^verbatim>\<open>elif\<close> chain.
\<close>

definition process_decoded_transaction_impl :: "env \<Rightarrow> internal_tx_decoded \<Rightarrow> processor \<Rightarrow> outcome" where
  "process_decoded_transaction_impl e itd s =
     (let itx = decoded_internal_tx itd;
          contract_address = itx_from itx;
          fname = function_name itd
      in if gas_used itx < 1000 then (Inr False, s)
         else
           let args = arguments itd in
           if fname = ''setup'' \<and> contract_address \<noteq> NULL_ADDRESS
           then process_setup itx args s
           else
             (case get_last_safe_status_for_address contract_address s of
                (None, s0) \<Rightarrow> (Inr False, s0)
              | (Some safe_last_status, s0) \<Rightarrow>
                  if fname \<in> {''addOwnerWithThreshold'', ''removeOwner'',
                               ''removeOwnerWithThreshold''}
                  then process_owner_modification itx fname args safe_last_status s0
                  else if fname = ''swapOwner''
                  then process_swap_owner itx args safe_last_status s0
                  else if fname = ''changeThreshold''
                  then process_change_threshold itx args safe_last_status s0
                  else if fname = ''changeMasterCopy''
                  then process_change_master_copy e itx args safe_last_status s0
                  else if fname = ''setFallbackHandler''
                  then process_set_fallback_handler itx args safe_last_status s0
                  else if fname = ''setGuard''
                  then process_set_guard itx args safe_last_status s0
                  else if fname = ''enableModule''
                  then process_enable_module itx args safe_last_status s0
                  else if fname = ''disableModule''
                  then process_disable_module itx args safe_last_status s0
                  else if fname \<in> {''execTransactionFromModule'',
                                    ''execTransactionFromModuleReturnData''}
                  then process_module_transaction e itx args s0
                  else if fname = ''approveHash''
                  then process_approve_hash e itx args s0
                  else if fname = ''execTransaction''
                  then process_exec_transaction e itx args safe_last_status s0
                  else if fname = ''execTransactionFromModule''
                  then (Inr True, s0)
                  else (Inr False, s0)))"

subsection \<open>The public entry points\<close>

definition set_processed :: "nat list \<Rightarrow> database \<Rightarrow> database" where
  "set_processed ids d =
     d\<lparr>processed := processed d \<union> set ids, processed_updates := processed_updates d @ [ids]\<rparr>"


definition get_banned_addresses :: "database \<Rightarrow> address list \<Rightarrow> address set" where
  "get_banned_addresses d addresses =
     (if addresses \<noteq> []
      then {a \<in> set addresses. case safe_contracts d a of Some sc \<Rightarrow> banned sc | None \<Rightarrow> False}
      else {a. case safe_contracts d a of Some sc \<Rightarrow> banned sc | None \<Rightarrow> False})"

text \<open>
  The body of the \<^verbatim>\<open>for\<close> loop of \<^verbatim>\<open>process_decoded_transactions\<close> with its two
  \<^verbatim>\<open>except\<close> clauses; \<open>results\<close> and \<open>internal_tx_ids\<close> are the lists it appends to.
\<close>

fun process_loop ::
    "env \<Rightarrow> address set \<Rightarrow> internal_tx_decoded list \<Rightarrow> bool list \<Rightarrow> nat list \<Rightarrow> processor
     \<Rightarrow> (error + bool list \<times> nat list) \<times> processor" where
  "process_loop e banned_addresses [] results internal_tx_ids s =
     (Inr (results, internal_tx_ids), s)"
| "process_loop e banned_addresses (itd # rest) results internal_tx_ids s =
     (let contract_address = itx_from (decoded_internal_tx itd);
          internal_tx_ids' = internal_tx_ids @ [internal_tx_id (decoded_internal_tx itd)]
      in if contract_address \<in> banned_addresses
         then process_loop e banned_addresses rest (results @ [False]) internal_tx_ids' s
         else
           (case process_decoded_transaction_impl e itd s of
              (Inr result, s1) \<Rightarrow>
                process_loop e banned_addresses rest (results @ [result]) internal_tx_ids' s1
            | (Inl err, s1) \<Rightarrow>
                if err = CannotFindPreviousTrace then (Inl err, s1)
                else if is_TxProcessorException err
                then process_loop e banned_addresses rest (results @ [False]) internal_tx_ids' s1
                else (Inl err, s1)))"

fun clear_caches :: "address list \<Rightarrow> processor \<Rightarrow> processor" where
  "clear_caches [] s = s"
| "clear_caches (contract_address # rest) s =
     clear_caches rest (snd (clear_cache contract_address s))"

text \<open>
  \<^verbatim>\<open>process_decoded_transactions\<close>, under \<^verbatim>\<open>transaction.atomic\<close>. The set
  \<open>contract_addresses\<close> is a list without duplicates; the order in which the
  \<^verbatim>\<open>finally\<close> clause goes through it has no effect on the result.
\<close>

definition process_decoded_transactions ::
    "env \<Rightarrow> internal_tx_decoded list \<Rightarrow> processor \<Rightarrow> (error + bool list) \<times> processor" where
  "process_decoded_transactions e itds s =
     (if itds = [] then (Inr [], s)
      else
        let contract_addresses = remdups (map (\<lambda>itd. itx_from (decoded_internal_tx itd)) itds);
            banned_addresses = get_banned_addresses (db s) contract_addresses
        in case process_loop e banned_addresses itds [] [] s of
             (Inr (results, internal_tx_ids), s1) \<Rightarrow>
               (Inr results,
                clear_caches contract_addresses
                  (s1\<lparr>db := set_processed internal_tx_ids (db s1)\<rparr>))
           | (Inl err, s1) \<Rightarrow> (Inl err, clear_caches contract_addresses (s1\<lparr>db := db s\<rparr>)))"

subsection \<open>Example data\<close>

text \<open>
  Concrete collaborators, a Safe \<open>0xA\<close> with two owners on the master copy of version
  1.1.1, and decoded calls for it. The Safe has executed a transaction of nonce 0; a
  second proposal of nonce 0 and proposals of nonces 1 and 2 are not executed, and there
  is a proposal of another Safe \<open>0xB\<close>.
\<close>

definition example_env :: env where
  "example_env =
     \<lparr>get_previous_trace = (\<lambda>_ _. NoTrace), Version = Version_table,
      HexBytes = map of_char, address_bytes = map of_char,
      safe_tx_failure_events_topics = {}, safe_tx_module_failure_topics = {},
      get_chain_id = 1, compute_safe_tx_hash = (\<lambda>stx. [nat (stx_safe_nonce stx)]),
      parse_signature = (\<lambda>_ _. []),
      build_for_owner = (\<lambda>owner h. \<lparr>sig_owner = owner, sig_signature = [],
                                        export_signature = [], signature_type = 4\<rparr>)\<rparr>"

definition example_ethereum_tx :: ethereum_tx where
  "example_ethereum_tx = \<lparr>tx_hash = [7], transaction_index = 0, logs = []\<rparr>"

definition example_internal_tx :: "nat \<Rightarrow> int \<Rightarrow> internal_tx" where
  "example_internal_tx i g =
     \<lparr>internal_tx_id = i, itx_ethereum_tx = example_ethereum_tx, itx_from = ''0xA'',
      itx_to = ''0xM1'', gas_used = g, trace_address = ''0'', itx_timestamp = 100,
      block_number = 10\<rparr>"

definition example_call :: "nat \<Rightarrow> string \<Rightarrow> (string \<times> val) list \<Rightarrow> internal_tx_decoded" where
  "example_call i fname args =
     \<lparr>decoded_internal_tx = example_internal_tx i 50000, function_name = fname,
      arguments = map_of args\<rparr>"

definition example_status :: safe_status where
  "example_status =
     \<lparr>internal_tx = example_internal_tx 0 50000, address = ''0xA'',
      owners = [''0xO1'', ''0xO2''], threshold = 1, nonce = 1, master_copy = ''0xM1'',
      fallback_handler = NULL_ADDRESS, guard = None, enabled_modules = []\<rparr>"

definition example_multisig_transaction :: "nat \<Rightarrow> nat \<Rightarrow> bool \<Rightarrow> multisig_transaction" where
  "example_multisig_transaction h n executed =
     \<lparr>safe_tx_hash = [h], mtx_created = 90, mtx_safe = ''0xA'',
      mtx_ethereum_tx = (if executed then Some [6] else None), mtx_to = ''0xT'',
      mtx_value = 0, mtx_data = None, mtx_operation = 0, safe_tx_gas = 0, base_gas = 0,
      gas_price = 0, gas_token = NULL_ADDRESS, refund_receiver = NULL_ADDRESS,
      mtx_nonce = int n, signatures = None,
      failed = (if executed then Some False else None), trusted = True\<rparr>"

definition example_db :: database where
  "example_db =
     \<lparr>safe_contracts = [''0xA'' \<mapsto> \<lparr>sc_ethereum_tx = Some [5], banned = False\<rparr>],
      safe_last_statuses = [''0xA'' \<mapsto> example_status],
      safe_statuses = [example_status],
      safe_master_copies = [''0xM1'' \<mapsto> ''1.1.1'', ''0xM2'' \<mapsto> ''1.3.0''],
      multisig_transactions =
        [example_multisig_transaction 10 0 True, example_multisig_transaction 11 0 False,
         example_multisig_transaction 1 1 False, example_multisig_transaction 2 2 False,
         (example_multisig_transaction 12 5 False)\<lparr>mtx_safe := ''0xB''\<rparr>],
      multisig_confirmations = [], module_transactions = [],
      safe_relevant_transactions = [], safe_contract_delegates = [],
      safe_message_confirmations = [], processed = {}, processed_updates = []\<rparr>"

definition example_processor :: processor where
  "example_processor =
     \<lparr>safe_last_status_cache = Map.empty, db = example_db,
      version_for_address_cache = Map.empty\<rparr>"

definition example_exec_transaction :: internal_tx_decoded where
  "example_exec_transaction =
     example_call 1 ''execTransaction''
       [(''to'', VStr ''0xT''), (''value'', VInt 0), (''data'', VStr ''0x''),
        (''operation'', VInt 0), (''safeTxGas'', VInt 0), (''baseGas'', VInt 0),
        (''gasPrice'', VInt 0), (''gasToken'', VStr NULL_ADDRESS),
        (''refundReceiver'', VStr NULL_ADDRESS), (''signatures'', VStr ''0x'')]"

definition example_low_gas_call :: internal_tx_decoded where
  "example_low_gas_call =
     \<lparr>decoded_internal_tx = example_internal_tx 2 500, function_name = ''execTransaction'',
      arguments = Map.empty\<rparr>"

definition example_remove_owner :: internal_tx_decoded where
  "example_remove_owner =
     example_call 3 ''removeOwner'' [(''owner'', VStr ''0xO3''), (''_threshold'', VInt 1)]"

definition example_change_master_copy :: internal_tx_decoded where
  "example_change_master_copy =
     example_call 4 ''changeMasterCopy'' [(''_masterCopy'', VStr ''0xM2'')]"

definition example_env_rpc_error :: env where
  "example_env_rpc_error = example_env\<lparr>get_previous_trace := (\<lambda>_ _. RaisesWeb3RPCError)\<rparr>"


definition example_module_call_traced :: internal_tx_decoded where
  "example_module_call_traced =
     example_call 6 ''execTransactionFromModule''
       [(''to'', VStr ''0xT''), (''value'', VInt 0), (''data'', VStr ''0x''),
        (''operation'', VInt 0)]"

definition example_approve_hash :: internal_tx_decoded where
  "example_approve_hash = example_call 7 ''approveHash'' [(''hashToApprove'', VStr ''0xH'')]"

text \<open>The processed flags together with the record of their writes.\<close>

definition processed_flags :: "processor \<Rightarrow> nat set \<times> nat list list" where
  "processed_flags s = (processed (db s), processed_updates (db s))"

definition example_change_threshold :: internal_tx_decoded where
  "example_change_threshold = example_call 8 ''changeThreshold'' [(''_threshold'', VInt 2)]"

definition example_change_threshold_again :: internal_tx_decoded where
  "example_change_threshold_again = example_call 9 ''changeThreshold'' [(''_threshold'', VInt 2)]"

text \<open>
  \<^verbatim>\<open>address\<close> is the primary key of \<^verbatim>\<open>SafeLastStatus\<close>, and the cache is written under
  \<^verbatim>\<open>safe_last_status.address\<close>: the row or the entry found under an address carries
  that address.
\<close>

definition keyed_by_address :: "processor \<Rightarrow> bool" where
  "keyed_by_address s \<longleftrightarrow>
     (\<forall>a st. safe_last_statuses (db s) a = Some st \<longrightarrow> address st = a)
     \<and> (\<forall>a st. safe_last_status_cache s a = Some st \<longrightarrow> address st = a)"

text \<open>A step that leaves the cache entries of all Safes but one as they were.\<close>

definition touches_only :: "address \<Rightarrow> processor \<Rightarrow> processor \<Rightarrow> bool" where
  "touches_only a s s' \<longleftrightarrow>
     keyed_by_address s'
     \<and> (\<forall>b. b \<noteq> a \<longrightarrow> safe_last_status_cache s' b = safe_last_status_cache s b)"


section \<open>Properties\<close>

lemma any_breaking_iff:
  "any_breaking a b vs \<longleftrightarrow> (\<exists>v \<in> set vs. version_less a v \<and> version_le v b)"
  by (induction vs) auto

lemma version_less_asym: "version_less a b \<Longrightarrow> \<not> version_less b a"
  by (simp add: version_less_def)

lemma any_breaking_equiv:
  assumes "\<not> version_less a b" and "\<not> version_less b a"
  shows "any_breaking a b vs = any_breaking b a vs"
proof -
  from assms have "cmpkey a = cmpkey b"
    by (simp add: version_less_def)
  then show ?thesis
    by (simp add: any_breaking_iff version_less_def version_le_def)
qed

text \<open>
  C10. \<^verbatim>\<open>is_version_breaking_signatures\<close> gives the same result when its arguments are
  exchanged, and on two valid version strings it is true exactly when one of the
  breaking versions 1.0.0, 1.3.0 is strictly above the smaller base version and at or
  below the larger one.
\<close>

theorem is_version_breaking_signatures_symmetric:
  "is_version_breaking_signatures V a b = is_version_breaking_signatures V b a
   \<and> (\<forall>va vb. V a = Some va \<and> V b = Some vb \<longrightarrow>
        is_version_breaking_signatures V a b =
          Some (\<exists>bv \<in> set signature_breaking_versions.
                  version_less (version_min va vb) bv \<and> version_le bv (version_max va vb)))"
proof (intro conjI allI impI)
  show "is_version_breaking_signatures V a b = is_version_breaking_signatures V b a"
  proof (cases "V a")
    case None
    then show ?thesis
      by (simp add: is_version_breaking_signatures_def split: option.splits)
  next
    case (Some va)
    show ?thesis
    proof (cases "V b")
      case None
      with Some show ?thesis
        by (simp add: is_version_breaking_signatures_def)
    next
      case (Some vb)
      with \<open>V a = Some va\<close> show ?thesis
        using version_less_asym [of va vb] version_less_asym [of vb va]
          any_breaking_equiv [of va vb signature_breaking_versions]
        by (auto simp: is_version_breaking_signatures_def)
    qed
  qed
next
  fix va vb
  assume "V a = Some va \<and> V b = Some vb"
  then show "is_version_breaking_signatures V a b =
          Some (\<exists>bv \<in> set signature_breaking_versions.
                  version_less (version_min va vb) bv \<and> version_le bv (version_max va vb))"
    by (simp add: is_version_breaking_signatures_def any_breaking_iff version_min_def
        version_max_def)
qed

theorem is_version_breaking_signatures_symmetric_witness:
  "Version_table ''1.1.1'' = Some (0, [1, 1, 1]) \<and> Version_table ''1.3.0+L2'' = Some (0, [1, 3, 0])
   \<and> is_version_breaking_signatures Version_table ''1.1.1'' ''1.3.0+L2'' = Some True
   \<and> is_version_breaking_signatures Version_table ''1.3.0+L2'' ''1.1.1'' = Some True"
proof -
  have a: "Version_table ''1.1.1'' = Some (0, [1, 1, 1])"
    by (simp add: Version_table_def)
  have b: "Version_table ''1.3.0+L2'' = Some (0, [1, 3, 0])"
    by (simp add: Version_table_def)
  have c: "(\<exists>bv \<in> set signature_breaking_versions.
              version_less (version_min (0, [1, 1, 1]) (0, [1, 3, 0])) bv
              \<and> version_le bv (version_max (0, [1, 1, 1]) (0, [1, 3, 0])))"
    by (simp add: signature_breaking_versions_def version_less_def version_le_def
        version_min_def version_max_def cmpkey_def strip_trailing_zeros_def)
  note t = is_version_breaking_signatures_symmetric
    [of Version_table "''1.1.1''" "''1.3.0+L2''"]
  from t a b have d: "is_version_breaking_signatures Version_table ''1.1.1'' ''1.3.0+L2'' =
      Some (\<exists>bv \<in> set signature_breaking_versions.
              version_less (version_min (0, [1, 1, 1]) (0, [1, 3, 0])) bv
              \<and> version_le bv (version_max (0, [1, 1, 1]) (0, [1, 3, 0])))"
    by blast
  with c have e: "is_version_breaking_signatures Version_table ''1.1.1'' ''1.3.0+L2'' = Some True"
    by simp
  from t e have "is_version_breaking_signatures Version_table ''1.3.0+L2'' ''1.1.1'' = Some True"
    by simp
  with a b e show ?thesis by simp
qed

subsection \<open>The gas guard\<close>

text \<open>
  C6. A call whose trace used less than 1000 gas is reported unsuccessful whatever its
  function name and arguments are, and the processor state (cache and every table) is
  returned as it was.
\<close>

theorem low_gas_call_is_rejected:
  assumes "gas_used (decoded_internal_tx itd) < 1000"
  shows "process_decoded_transaction_impl e itd s = (Inr False, s)
     \<and> (\<forall>f a. process_decoded_transaction_impl e (itd\<lparr>function_name := f, arguments := a\<rparr>) s
                = (Inr False, s))"
  using assms by (simp add: process_decoded_transaction_impl_def)

theorem low_gas_call_is_rejected_witness:
  "gas_used (decoded_internal_tx example_low_gas_call) < 1000
   \<and> process_decoded_transaction_impl example_env example_low_gas_call example_processor
       = (Inr False, example_processor)"
proof -
  have gas: "gas_used (decoded_internal_tx example_low_gas_call) < 1000"
    by (simp add: example_low_gas_call_def example_internal_tx_def)
  from low_gas_call_is_rejected [OF gas, of example_env example_processor] gas
  show ?thesis by simp
qed

subsection \<open>Dispatch on the function name\<close>

lemma impl_low_gas:
  "gas_used (decoded_internal_tx itd) < 1000 \<Longrightarrow> process_decoded_transaction_impl e itd s = (Inr False, s)"
  by (simp add: process_decoded_transaction_impl_def)

lemma impl_exec_transaction:
  assumes "\<not> gas_used (decoded_internal_tx itd) < 1000"
    and "function_name itd = ''execTransaction''"
    and "get_last_safe_status_for_address (itx_from (decoded_internal_tx itd)) s = (Some st, s0)"
  shows "process_decoded_transaction_impl e itd s =
         process_exec_transaction e (decoded_internal_tx itd) (arguments itd) st s0"
  using assms by (simp add: process_decoded_transaction_impl_def)

lemma impl_module:
  assumes "\<not> gas_used (decoded_internal_tx itd) < 1000"
    and "function_name itd = ''execTransactionFromModule''
         \<or> function_name itd = ''execTransactionFromModuleReturnData''"
    and "get_last_safe_status_for_address (itx_from (decoded_internal_tx itd)) s = (Some st, s0)"
  shows "process_decoded_transaction_impl e itd s =
         process_module_transaction e (decoded_internal_tx itd) (arguments itd) s0"
  using assms by (auto simp add: process_decoded_transaction_impl_def)

lemma impl_approve_hash:
  assumes "\<not> gas_used (decoded_internal_tx itd) < 1000"
    and "function_name itd = ''approveHash''"
    and "get_last_safe_status_for_address (itx_from (decoded_internal_tx itd)) s = (Some st, s0)"
  shows "process_decoded_transaction_impl e itd s =
         process_approve_hash e (decoded_internal_tx itd) (arguments itd) s0"
  using assms by (simp add: process_decoded_transaction_impl_def)

lemma impl_change_master_copy:
  assumes "\<not> gas_used (decoded_internal_tx itd) < 1000"
    and "function_name itd = ''changeMasterCopy''"
    and "get_last_safe_status_for_address (itx_from (decoded_internal_tx itd)) s = (Some st, s0)"
  shows "process_decoded_transaction_impl e itd s =
         process_change_master_copy e (decoded_internal_tx itd) (arguments itd) st s0"
  using assms by (simp add: process_decoded_transaction_impl_def)

lemma impl_remove_owner:
  assumes "\<not> gas_used (decoded_internal_tx itd) < 1000"
    and "function_name itd = ''removeOwner'' \<or> function_name itd = ''removeOwnerWithThreshold''"
    and "get_last_safe_status_for_address (itx_from (decoded_internal_tx itd)) s = (Some st, s0)"
  shows "process_decoded_transaction_impl e itd s =
         process_owner_modification (decoded_internal_tx itd) (function_name itd) (arguments itd) st s0"
  using assms by (auto simp add: process_decoded_transaction_impl_def)

lemma impl_swap_owner:
  assumes "\<not> gas_used (decoded_internal_tx itd) < 1000"
    and "function_name itd = ''swapOwner''"
    and "get_last_safe_status_for_address (itx_from (decoded_internal_tx itd)) s = (Some st, s0)"
  shows "process_decoded_transaction_impl e itd s =
         process_swap_owner (decoded_internal_tx itd) (arguments itd) st s0"
  using assms by (simp add: process_decoded_transaction_impl_def)



subsection \<open>What the table operations leave alone\<close>

lemma get_or_create_multisig_transaction_frame:
  assumes "get_or_create_multisig_transaction t d = (t', d')"
  shows "safe_statuses d' = safe_statuses d" "processed d' = processed d"
    "processed_updates d' = processed_updates d"
  using assms by (auto simp: get_or_create_multisig_transaction_def split: option.splits)

lemma get_or_create_confirmation_frame:
  assumes "get_or_create_confirmation c d = (c', d')"
  shows "safe_statuses d' = safe_statuses d" "processed d' = processed d"
    "processed_updates d' = processed_updates d"
  using assms by (auto simp: get_or_create_confirmation_def split: option.splits)

lemma simple_frames [simp]:
  "safe_statuses (get_or_create_relevant_transaction r d) = safe_statuses d"
  "processed (get_or_create_relevant_transaction r d) = processed d"
  "processed_updates (get_or_create_relevant_transaction r d) = processed_updates d"
  "safe_statuses (get_or_create_module_transaction m d) = safe_statuses d"
  "processed (get_or_create_module_transaction m d) = processed d"
  "processed_updates (get_or_create_module_transaction m d) = processed_updates d"
  "safe_statuses (save_multisig_transaction t d) = safe_statuses d"
  "processed (save_multisig_transaction t d) = processed d"
  "processed_updates (save_multisig_transaction t d) = processed_updates d"
  "safe_statuses (save_confirmation c d) = safe_statuses d"
  "processed (save_confirmation c d) = processed d"
  "processed_updates (save_confirmation c d) = processed_updates d"
  "safe_statuses (delete_queued a d) = safe_statuses d"
  "processed (delete_queued a d) = processed d"
  "processed_updates (delete_queued a d) = processed_updates d"
  "safe_statuses (remove_unused_confirmations a n ow d) = safe_statuses d"
  "processed (remove_unused_confirmations a n ow d) = processed d"
  "processed_updates (remove_unused_confirmations a n ow d) = processed_updates d"
  "safe_statuses (remove_delegates_for_owner_in_safe a ow d) = safe_statuses d"
  "processed (remove_delegates_for_owner_in_safe a ow d) = processed d"
  "processed_updates (remove_delegates_for_owner_in_safe a ow d) = processed_updates d"
  by (simp_all add: get_or_create_relevant_transaction_def get_or_create_module_transaction_def
      save_multisig_transaction_def save_confirmation_def delete_queued_def
      remove_unused_confirmations_def remove_delegates_for_owner_in_safe_def)

lemma store_confirmations_frame [simp]:
  "safe_statuses (store_confirmations itx h sgs d) = safe_statuses d"
  "processed (store_confirmations itx h sgs d) = processed d"
  "processed_updates (store_confirmations itx h sgs d) = processed_updates d"
proof (induction sgs arbitrary: d)
  case Nil
  {
    case 1 show ?case by simp
  next
    case 2 show ?case by simp
  next
    case 3 show ?case by simp
  }
next
  case (Cons sg sgs)
  {
    case 1 show ?case
      by (auto simp: Cons.IH Let_def split: prod.splits dest: get_or_create_confirmation_frame)
  next
    case 2 show ?case
      by (auto simp: Cons.IH Let_def split: prod.splits dest: get_or_create_confirmation_frame)
  next
    case 3 show ?case
      by (auto simp: Cons.IH Let_def split: prod.splits dest: get_or_create_confirmation_frame)
  }
qed

lemma store_exec_transaction_frame [simp]:
  "safe_statuses (store_exec_transaction e itx stx d) = safe_statuses d"
  "processed (store_exec_transaction e itx stx d) = processed d"
  "processed_updates (store_exec_transaction e itx stx d) = processed_updates d"
  by (auto simp: store_exec_transaction_def Let_def split: prod.splits
      dest: get_or_create_multisig_transaction_frame)


lemma get_last_safe_status_for_address_frame:
  assumes "get_last_safe_status_for_address a s = (r, s0)"
  shows "safe_last_status_cache s0 = safe_last_status_cache s"
    "safe_statuses (db s0) = safe_statuses (db s)"
    "processed (db s0) = processed (db s)"
    "processed_updates (db s0) = processed_updates (db s)"
  using assms
  by (auto simp: get_last_safe_status_for_address_def get_or_generate_def split: option.splits)

lemma store_new_safe_status_result:
  "safe_last_status_cache (store_new_safe_status st itx s) (address st) = Some (st\<lparr>internal_tx := itx\<rparr>)"
  "safe_last_statuses (db (store_new_safe_status st itx s)) (address st) = Some (st\<lparr>internal_tx := itx\<rparr>)"
  "safe_statuses (db (store_new_safe_status st itx s)) = safe_statuses (db s) @ [st\<lparr>internal_tx := itx\<rparr>]"
  "processed (db (store_new_safe_status st itx s)) = processed (db s)"
  "processed_updates (db (store_new_safe_status st itx s)) = processed_updates (db s)"
  by (simp_all add: store_new_safe_status_def add_to_historical_table_def Let_def)

subsection \<open>execTransaction\<close>

lemma get_version_for_address_frame:
  assumes "get_version_for_address a s = (v, s')"
  shows "db s' = db s" "safe_last_status_cache s' = safe_last_status_cache s"
  using assms by (auto simp: get_version_for_address_def Let_def split: option.splits)

lemma get_safe_version_from_master_copy_frame:
  assumes "get_safe_version_from_master_copy a s = (v, s')"
  shows "db s' = db s" "safe_last_status_cache s' = safe_last_status_cache s"
  using assms get_version_for_address_frame [of a s v s']
  by (simp_all add: get_safe_version_from_master_copy_def)

lemma exec_transaction_base_gas_frame:
  assumes "exec_transaction_base_gas args st s = (r, s')"
  shows "db s' = db s" "safe_last_status_cache s' = safe_last_status_cache s"
  using assms
  by (auto simp: exec_transaction_base_gas_def Let_def
      split: if_splits option.splits prod.splits dest: get_safe_version_from_master_copy_frame)

lemma exec_transaction_safe_tx_frame:
  assumes "exec_transaction_safe_tx e itx args st s = (r, s')"
  shows "db s' = db s" "safe_last_status_cache s' = safe_last_status_cache s"
  using assms
  by (auto simp: exec_transaction_safe_tx_def
      split: option.splits prod.splits dest: exec_transaction_base_gas_frame)

lemma exec_transaction_safe_tx_nonce:
  assumes "exec_transaction_safe_tx e itx args st s = (Some (n, stx), s')"
  shows "resolve_nonce args st = Some n"
  using assms unfolding exec_transaction_safe_tx_def
  by (auto simp: bind_eq_Some_conv split: option.splits prod.splits)

text \<open>
  C2. A processed \<^verbatim>\<open>execTransaction\<close> call whose resolved nonce is \<open>N\<close> (the \<^verbatim>\<open>nonce\<close>
  argument when the call carries one, otherwise the nonce of the current status) reports
  success, leaves the cached and the stored latest status of the wallet with nonce
  \<open>N + 1\<close>, and appends a snapshot with that nonce to the history.
\<close>

theorem exec_transaction_advances_nonce:
  assumes gas: "\<not> gas_used (decoded_internal_tx itd) < 1000"
    and fn: "function_name itd = ''execTransaction''"
    and st: "get_last_safe_status_for_address (itx_from (decoded_internal_tx itd)) s = (Some st, s0)"
    and N: "arguments itd ''nonce'' = Some (VInt N) \<or> (arguments itd ''nonce'' = None \<and> nonce st = N)"
    and args: "fst (exec_transaction_safe_tx e (decoded_internal_tx itd) (arguments itd) st s0)
                 \<noteq> None"
  shows "fst (process_decoded_transaction_impl e itd s) = Inr True
     \<and> map_option nonce (safe_last_status_cache (snd (process_decoded_transaction_impl e itd s)) (address st))
         = Some (N + 1)
     \<and> map_option nonce (safe_last_statuses (db (snd (process_decoded_transaction_impl e itd s))) (address st))
         = Some (N + 1)
     \<and> safe_statuses (db (snd (process_decoded_transaction_impl e itd s)))
         = safe_statuses (db s) @ [st\<lparr>nonce := N + 1, internal_tx := decoded_internal_tx itd\<rparr>]"
proof -
  from args obtain n stx s1 where
    tx: "exec_transaction_safe_tx e (decoded_internal_tx itd) (arguments itd) st s0
           = (Some (n, stx), s1)"
    by (cases "exec_transaction_safe_tx e (decoded_internal_tx itd) (arguments itd) st s0") auto
  from exec_transaction_safe_tx_nonce [OF tx] N have n: "n = N"
    by (auto simp: resolve_nonce_def arg_int_def dom_def split: if_splits)
  have impl: "process_decoded_transaction_impl e itd s =
      (Inr True, store_new_safe_status (st\<lparr>nonce := N + 1\<rparr>) (decoded_internal_tx itd)
                   (s1\<lparr>db := store_exec_transaction e (decoded_internal_tx itd) stx (db s1)\<rparr>))"
    using impl_exec_transaction [OF gas fn st] tx n
    by (simp add: process_exec_transaction_def)
  have hist: "safe_statuses (db s1) = safe_statuses (db s)"
    using get_last_safe_status_for_address_frame [OF st] exec_transaction_safe_tx_frame [OF tx]
    by simp
  show ?thesis
    using store_new_safe_status_result [of "st\<lparr>nonce := N + 1\<rparr>" "decoded_internal_tx itd"
        "s1\<lparr>db := store_exec_transaction e (decoded_internal_tx itd) stx (db s1)\<rparr>"]
    by (simp add: impl hist)
qed


lemma example_status_lookup:
  "get_last_safe_status_for_address ''0xA'' example_processor = (Some example_status, example_processor)"
  by (simp add: get_last_safe_status_for_address_def get_or_generate_def example_processor_def
      example_db_def)

theorem exec_transaction_advances_nonce_witness:
  "\<not> gas_used (decoded_internal_tx example_exec_transaction) < 1000
   \<and> function_name example_exec_transaction = ''execTransaction''
   \<and> arguments example_exec_transaction ''nonce'' = None \<and> nonce example_status = 1
   \<and> fst (exec_transaction_safe_tx example_env (decoded_internal_tx example_exec_transaction)
            (arguments example_exec_transaction) example_status example_processor) \<noteq> None
   \<and> fst (process_decoded_transaction_impl example_env example_exec_transaction example_processor)
       = Inr True
   \<and> map_option nonce
        (safe_last_status_cache
           (snd (process_decoded_transaction_impl example_env example_exec_transaction
                   example_processor)) ''0xA'') = Some 2"
proof -
  have gas: "\<not> gas_used (decoded_internal_tx example_exec_transaction) < 1000"
    by (simp add: example_exec_transaction_def example_call_def example_internal_tx_def)
  have fn: "function_name example_exec_transaction = ''execTransaction''"
    by (simp add: example_exec_transaction_def example_call_def)
  have st: "get_last_safe_status_for_address
              (itx_from (decoded_internal_tx example_exec_transaction)) example_processor
            = (Some example_status, example_processor)"
    using example_status_lookup
    by (simp add: example_exec_transaction_def example_call_def example_internal_tx_def)
  have N1: "arguments example_exec_transaction ''nonce'' = None"
    by (simp add: example_exec_transaction_def example_call_def)
  have N2: "nonce example_status = 1"
    by (simp add: example_status_def)
  from N1 N2
  have N: "arguments example_exec_transaction ''nonce'' = Some (VInt 1)
           \<or> (arguments example_exec_transaction ''nonce'' = None \<and> nonce example_status = 1)"
    by simp
  have args: "fst (exec_transaction_safe_tx example_env
                     (decoded_internal_tx example_exec_transaction)
                     (arguments example_exec_transaction) example_status example_processor)
              \<noteq> None"
    by (simp add: exec_transaction_safe_tx_def exec_transaction_base_gas_def
        get_safe_version_from_master_copy_def get_version_for_address_def Let_def
        resolve_nonce_def arg_int_def arg_str_def
        example_exec_transaction_def example_call_def dom_def split: prod.splits)
  have addr: "address example_status = ''0xA''"
    by (simp add: example_status_def)
  from exec_transaction_advances_nonce [OF gas fn st N args] gas fn N1 N2 args addr
  show ?thesis by simp
qed

subsection \<open>Removing an owner that is not there\<close>

lemma swap_owner_absent:
  "owner \<notin> set (owners st) \<Longrightarrow> swap_owner itx st owner new_owner s = (Inl OwnerCannotBeRemoved, s)"
  by (simp add: swap_owner_def)

lemma get_last_safe_status_for_address_cached:
  assumes "get_last_safe_status_for_address a s = (Some st, s0)"
    and "safe_last_status_cache s a \<noteq> None"
  shows "safe_last_status_cache s a = Some st" and "s0 = s"
  using assms by (auto simp: get_last_safe_status_for_address_def)

lemma mutate_in_place_frame:
  "db (mutate_in_place a st s) = db s"
  "safe_last_status_cache s a = Some st0 \<Longrightarrow> owners st = owners st0 \<Longrightarrow>
     map_option owners (safe_last_status_cache (mutate_in_place a st s) b)
       = map_option owners (safe_last_status_cache s b)"
  "safe_last_status_cache s a = None \<Longrightarrow> mutate_in_place a st s = s"
  by (auto simp: mutate_in_place_def)

text \<open>
  C7. When the owner to remove or to replace is not in the current owner list of the
  wallet, \<^verbatim>\<open>swap_owner\<close> raises \<^verbatim>\<open>OwnerCannotBeRemoved\<close>, and so does the processing of
  a \<^verbatim>\<open>removeOwner\<close>, \<^verbatim>\<open>removeOwnerWithThreshold\<close> or \<^verbatim>\<open>swapOwner\<close> call that passes the
  gas guard and finds a status: no table is written (no snapshot is stored) and the
  owner list of every cached status stays as it was.
\<close>

theorem removing_absent_owner_raises:
  assumes gas: "\<not> gas_used (decoded_internal_tx itd) < 1000"
    and st: "get_last_safe_status_for_address (itx_from (decoded_internal_tx itd)) s = (Some st, s0)"
    and absent: "owner \<notin> set (owners st)"
    and call: "((function_name itd = ''removeOwner'' \<or> function_name itd = ''removeOwnerWithThreshold'')
                 \<and> arg_int_or_none (arguments itd) ''_threshold'' \<noteq> None
                 \<and> arg_str (arguments itd) ''owner'' = Some owner)
               \<or> (function_name itd = ''swapOwner''
                   \<and> arg_str (arguments itd) ''oldOwner'' = Some owner
                   \<and> arg_str (arguments itd) ''newOwner'' \<noteq> None)"
  shows "swap_owner (decoded_internal_tx itd) st owner new_owner s0 = (Inl OwnerCannotBeRemoved, s0)
     \<and> fst (process_decoded_transaction_impl e itd s) = Inl OwnerCannotBeRemoved
     \<and> db (snd (process_decoded_transaction_impl e itd s)) = db s0
     \<and> safe_statuses (db (snd (process_decoded_transaction_impl e itd s))) = safe_statuses (db s)
     \<and> (\<forall>a. map_option owners
                (safe_last_status_cache (snd (process_decoded_transaction_impl e itd s)) a)
              = map_option owners (safe_last_status_cache s a))"
proof -
  let ?a = "itx_from (decoded_internal_tx itd)"
  note fr = get_last_safe_status_for_address_frame [OF st]
  from call consider
    (swap) "function_name itd = ''swapOwner''"
      "arg_str (arguments itd) ''oldOwner'' = Some owner"
      "arg_str (arguments itd) ''newOwner'' \<noteq> None"
  | (remove) "function_name itd = ''removeOwner'' \<or> function_name itd = ''removeOwnerWithThreshold''"
      "arg_int_or_none (arguments itd) ''_threshold'' \<noteq> None"
      "arg_str (arguments itd) ''owner'' = Some owner"
    by blast
  then show ?thesis
  proof cases
    case swap
    note fn = swap(1) and o = swap(2) and n = swap(3)
    from n obtain new where n': "arg_str (arguments itd) ''newOwner'' = Some new" by auto
    have "process_decoded_transaction_impl e itd s = (Inl OwnerCannotBeRemoved, s0)"
      using impl_swap_owner [OF gas fn st] o n' absent
      by (simp add: process_swap_owner_def swap_owner_absent)
    with fr absent show ?thesis by (simp add: swap_owner_absent)
  next
    case remove
    note fn = remove(1) and t = remove(2) and o = remove(3)
    from t obtain t' where t': "arg_int_or_none (arguments itd) ''_threshold'' = Some t'" by auto
    define st1 where "st1 = st\<lparr>threshold := (case t' of Some n \<Rightarrow> if n \<noteq> 0 then n else threshold st
                               | None \<Rightarrow> threshold st)\<rparr>"
    have o1: "owner \<notin> set (owners st1)" "owners st1 = owners st"
      using absent by (simp_all add: st1_def)
    from fn have nadd: "function_name itd \<noteq> ''addOwnerWithThreshold''" by auto
    have impl: "process_decoded_transaction_impl e itd s =
        (Inl OwnerCannotBeRemoved, mutate_in_place ?a st1 s0)"
      using impl_remove_owner [OF gas fn st] t' o o1 nadd
      by (simp add: process_owner_modification_def swap_owner_absent st1_def [symmetric] Let_def)
    have cache: "map_option owners (safe_last_status_cache (mutate_in_place ?a st1 s0) b)
        = map_option owners (safe_last_status_cache s b)" for b
    proof (cases "safe_last_status_cache s ?a")
      case None
      with fr show ?thesis by (simp add: mutate_in_place_frame)
    next
      case (Some c)
      then have "safe_last_status_cache s ?a = Some st" "s0 = s"
        using get_last_safe_status_for_address_cached [OF st] by simp_all
      then show ?thesis using o1 by (simp add: mutate_in_place_frame)
    qed
    show ?thesis using fr absent cache
      by (simp add: impl swap_owner_absent mutate_in_place_frame)
  qed
qed

theorem removing_absent_owner_raises_witness:
  "\<not> gas_used (decoded_internal_tx example_remove_owner) < 1000
   \<and> ''0xO3'' \<notin> set (owners example_status)
   \<and> function_name example_remove_owner = ''removeOwner''
   \<and> arg_int_or_none (arguments example_remove_owner) ''_threshold'' \<noteq> None
   \<and> arg_str (arguments example_remove_owner) ''owner'' = Some ''0xO3''
   \<and> fst (process_decoded_transaction_impl example_env example_remove_owner example_processor)
       = Inl OwnerCannotBeRemoved
   \<and> db (snd (process_decoded_transaction_impl example_env example_remove_owner
                 example_processor)) = db example_processor"
proof -
  have gas: "\<not> gas_used (decoded_internal_tx example_remove_owner) < 1000"
    by (simp add: example_remove_owner_def example_call_def example_internal_tx_def)
  have st: "get_last_safe_status_for_address
              (itx_from (decoded_internal_tx example_remove_owner)) example_processor
            = (Some example_status, example_processor)"
    using example_status_lookup
    by (simp add: example_remove_owner_def example_call_def example_internal_tx_def)
  have absent: "''0xO3'' \<notin> set (owners example_status)"
    by (simp add: example_status_def)
  have fn: "function_name example_remove_owner = ''removeOwner''"
    by (simp add: example_remove_owner_def example_call_def)
  have t: "arg_int_or_none (arguments example_remove_owner) ''_threshold'' \<noteq> None"
    by (simp add: example_remove_owner_def example_call_def arg_int_or_none_def)
  have ow: "arg_str (arguments example_remove_owner) ''owner'' = Some ''0xO3''"
    by (simp add: example_remove_owner_def example_call_def arg_str_def)
  from fn t ow
  have call: "((function_name example_remove_owner = ''removeOwner''
                \<or> function_name example_remove_owner = ''removeOwnerWithThreshold'')
                 \<and> arg_int_or_none (arguments example_remove_owner) ''_threshold'' \<noteq> None
                 \<and> arg_str (arguments example_remove_owner) ''owner'' = Some ''0xO3'')
               \<or> (function_name example_remove_owner = ''swapOwner''
                   \<and> arg_str (arguments example_remove_owner) ''oldOwner'' = Some ''0xO3''
                   \<and> arg_str (arguments example_remove_owner) ''newOwner'' \<noteq> None)"
    by blast
  from removing_absent_owner_raises [OF gas st absent call, of None example_env]
    gas absent fn t ow
  show ?thesis by simp
qed

subsection \<open>changeMasterCopy\<close>

lemma queued_cong:
  "multisig_transactions d = multisig_transactions d' \<Longrightarrow> queued d a t = queued d' a t"
  by (simp add: queued_def max_executed_nonce_def)

lemma get_last_safe_status_for_address_tables:
  assumes "get_last_safe_status_for_address a s = (r, s0)"
  shows "multisig_transactions (db s0) = multisig_transactions (db s)"
    "safe_master_copies (db s0) = safe_master_copies (db s)"
    "version_for_address_cache s0 = version_for_address_cache s"
  using assms
  by (auto simp: get_last_safe_status_for_address_def get_or_generate_def split: option.splits)

lemma store_new_safe_status_tables:
  "multisig_transactions (db (store_new_safe_status st itx s)) = multisig_transactions (db s)"
  by (simp add: store_new_safe_status_def add_to_historical_table_def Let_def)

text \<open>
  What a version lookup returns depends on the memo and on the table of master copies
  only, and a lookup made before does not change it.
\<close>

lemma get_safe_version_from_master_copy_cong:
  assumes "version_for_address_cache s' = version_for_address_cache s"
    and "safe_master_copies (db s') = safe_master_copies (db s)"
  shows "fst (get_safe_version_from_master_copy a s') = fst (get_safe_version_from_master_copy a s)"
  using assms
  by (simp add: get_safe_version_from_master_copy_def get_version_for_address_def Let_def
      split: option.splits)

lemma get_safe_version_from_master_copy_again:
  assumes "get_safe_version_from_master_copy a s = (v, s')"
  shows "fst (get_safe_version_from_master_copy b s') = fst (get_safe_version_from_master_copy b s)"
  using assms
  by (cases "b = a")
     (auto simp: get_safe_version_from_master_copy_def get_version_for_address_def Let_def
      split: option.splits)

lemma mutate_in_place_memo:
  "version_for_address_cache (mutate_in_place a st s) = version_for_address_cache s"
  by (simp add: mutate_in_place_def)

text \<open>
  The subquery of \<^verbatim>\<open>queued\<close>: \<open>max_executed_nonce\<close> is below a nonce exactly when every
  executed transaction of the Safe has a smaller nonce and, should the Safe have executed
  nothing, the nonce is above \<open>-1\<close>.
\<close>

lemma fold_max_less_iff:
  "fold max ns (n :: int) < m \<longleftrightarrow> n < m \<and> (\<forall>x \<in> set ns. x < m)"
  by (induction ns arbitrary: n) auto

lemma max_executed_nonce_less_iff:
  "max_executed_nonce d a < m \<longleftrightarrow>
     (\<forall>u \<in> set (multisig_transactions d).
         mtx_ethereum_tx u \<noteq> None \<and> mtx_safe u = a \<longrightarrow> mtx_nonce u < m)
   \<and> ((\<forall>u \<in> set (multisig_transactions d). mtx_ethereum_tx u \<noteq> None \<longrightarrow> mtx_safe u \<noteq> a)
        \<longrightarrow> - 1 < m)"
proof -
  let ?P = "\<lambda>t. mtx_ethereum_tx t \<noteq> None \<and> mtx_safe t = a"
  let ?xs = "filter ?P (multisig_transactions d)"
  have sx: "set ?xs = {u \<in> set (multisig_transactions d). ?P u}" by simp
  show ?thesis
  proof (cases ?xs)
    case Nil
    then have none: "\<forall>u \<in> set (multisig_transactions d). \<not> ?P u"
      by (simp add: filter_empty_conv)
    have "max_executed_nonce d a = - 1"
      unfolding max_executed_nonce_def Nil by simp
    with none show ?thesis by auto
  next
    case (Cons x xs)
    then have "x \<in> set ?xs" by simp
    then have ex: "x \<in> set (multisig_transactions d)" "?P x" by simp_all
    have "max_executed_nonce d a = fold max (map mtx_nonce xs) (mtx_nonce x)"
      unfolding max_executed_nonce_def Cons by simp
    then have "max_executed_nonce d a < m \<longleftrightarrow> (\<forall>y \<in> set (x # xs). mtx_nonce y < m)"
      by (simp add: fold_max_less_iff)
    also have "\<dots> \<longleftrightarrow> (\<forall>y \<in> set ?xs. mtx_nonce y < m)"
      by (simp only: Cons)
    also have "\<dots> \<longleftrightarrow> (\<forall>u \<in> set (multisig_transactions d). ?P u \<longrightarrow> mtx_nonce u < m)"
      unfolding sx by blast
    finally show ?thesis using ex by blast
  qed
qed

text \<open>
  C8. A \<^verbatim>\<open>changeMasterCopy\<close> call for which the version lookup knows the old and the new
  master copy (it returns a non-empty version for both) and whose transition breaks
  signatures succeeds and deletes exactly the queued transactions of the wallet: a
  transaction is gone when it belongs to the wallet, is not executed, and its nonce is
  greater than the nonce of every executed transaction of the wallet (greater than \<open>-1\<close>
  when the wallet has executed nothing); every other transaction stays, in particular
  every executed one. The cached and the stored latest status then carry the new master
  copy.
\<close>

theorem change_master_copy_deletes_queued:
  assumes gas: "\<not> gas_used (decoded_internal_tx itd) < 1000"
    and fn: "function_name itd = ''changeMasterCopy''"
    and st: "get_last_safe_status_for_address (itx_from (decoded_internal_tx itd)) s = (Some st, s0)"
    and mc: "arg_str (arguments itd) ''_masterCopy'' = Some mc"
    and old: "fst (get_safe_version_from_master_copy (master_copy st) s) = Some old_version"
      "old_version \<noteq> []"
    and new: "fst (get_safe_version_from_master_copy mc s) = Some new_version"
      "new_version \<noteq> []"
    and breaking: "is_version_breaking_signatures (Version e) old_version new_version = Some True"
  shows "fst (process_decoded_transaction_impl e itd s) = Inr True
     \<and> multisig_transactions (db (snd (process_decoded_transaction_impl e itd s)))
         = filter (\<lambda>t. \<not> (mtx_safe t = itx_from (decoded_internal_tx itd)
                          \<and> mtx_ethereum_tx t = None
                          \<and> (\<forall>u \<in> set (multisig_transactions (db s)).
                                mtx_ethereum_tx u \<noteq> None
                                \<and> mtx_safe u = itx_from (decoded_internal_tx itd)
                                \<longrightarrow> mtx_nonce u < mtx_nonce t)
                          \<and> ((\<forall>u \<in> set (multisig_transactions (db s)).
                                 mtx_ethereum_tx u \<noteq> None
                                 \<longrightarrow> mtx_safe u \<noteq> itx_from (decoded_internal_tx itd))
                               \<longrightarrow> - 1 < mtx_nonce t)))
             (multisig_transactions (db s))
     \<and> (\<forall>t \<in> set (multisig_transactions (db s)). mtx_ethereum_tx t \<noteq> None \<longrightarrow>
           t \<in> set (multisig_transactions (db (snd (process_decoded_transaction_impl e itd s)))))
     \<and> map_option master_copy
          (safe_last_status_cache (snd (process_decoded_transaction_impl e itd s)) (address st))
         = Some mc
     \<and> map_option master_copy
          (safe_last_statuses (db (snd (process_decoded_transaction_impl e itd s))) (address st))
         = Some mc"
proof -
  let ?a = "itx_from (decoded_internal_tx itd)"
  let ?st1 = "st\<lparr>master_copy := mc\<rparr>"
  note tb = get_last_safe_status_for_address_tables [OF st]
  obtain ov s1 where l1: "get_safe_version_from_master_copy (master_copy st) s0 = (ov, s1)"
    by (cases "get_safe_version_from_master_copy (master_copy st) s0")
  define s2 where "s2 = mutate_in_place ?a ?st1 s1"
  obtain nv s3 where l2: "get_safe_version_from_master_copy mc s2 = (nv, s3)"
    by (cases "get_safe_version_from_master_copy mc s2")
  have ov: "ov = Some old_version"
    using l1 old(1) get_safe_version_from_master_copy_cong [OF tb(3) tb(2), of "master_copy st"]
    by simp
  have "fst (get_safe_version_from_master_copy mc s2) = fst (get_safe_version_from_master_copy mc s1)"
    unfolding s2_def
    by (rule get_safe_version_from_master_copy_cong)
       (simp_all add: mutate_in_place_memo mutate_in_place_frame)
  also have "\<dots> = fst (get_safe_version_from_master_copy mc s0)"
    by (rule get_safe_version_from_master_copy_again [OF l1])
  also have "\<dots> = fst (get_safe_version_from_master_copy mc s)"
    by (rule get_safe_version_from_master_copy_cong [OF tb(3) tb(2)])
  finally have nv: "nv = Some new_version"
    using l2 new(1) by simp
  have db3: "db s3 = db s0"
    using get_safe_version_from_master_copy_frame(1) [OF l2]
      get_safe_version_from_master_copy_frame(1) [OF l1]
    by (simp add: s2_def mutate_in_place_frame)
  have impl: "process_decoded_transaction_impl e itd s =
      (Inr True, store_new_safe_status ?st1 (decoded_internal_tx itd)
                   (s3\<lparr>db := delete_queued ?a (db s3)\<rparr>))"
    using impl_change_master_copy [OF gas fn st] mc l1 l2 [unfolded s2_def] ov nv old(2) new(2)
      breaking
    by (simp add: process_change_master_copy_def falsy_def Let_def)
  have q: "queued (db s0) ?a t = queued (db s) ?a t" for t
    by (rule queued_cong) (simp add: tb)
  have txs: "multisig_transactions (db (snd (process_decoded_transaction_impl e itd s)))
      = filter (\<lambda>t. \<not> queued (db s) ?a t) (multisig_transactions (db s))"
    using tb q by (simp add: impl store_new_safe_status_tables db3 delete_queued_def)
  have qd: "queued (db s) ?a t \<longleftrightarrow>
      (mtx_safe t = ?a \<and> mtx_ethereum_tx t = None
       \<and> (\<forall>u \<in> set (multisig_transactions (db s)).
             mtx_ethereum_tx u \<noteq> None \<and> mtx_safe u = ?a \<longrightarrow> mtx_nonce u < mtx_nonce t)
       \<and> ((\<forall>u \<in> set (multisig_transactions (db s)).
              mtx_ethereum_tx u \<noteq> None \<longrightarrow> mtx_safe u \<noteq> ?a) \<longrightarrow> - 1 < mtx_nonce t))" for t
    unfolding queued_def max_executed_nonce_less_iff by blast
  have r: "fst (process_decoded_transaction_impl e itd s) = Inr True"
    by (simp add: impl)
  have del: "multisig_transactions (db (snd (process_decoded_transaction_impl e itd s)))
         = filter (\<lambda>t. \<not> (mtx_safe t = ?a \<and> mtx_ethereum_tx t = None
                          \<and> (\<forall>u \<in> set (multisig_transactions (db s)).
                                mtx_ethereum_tx u \<noteq> None \<and> mtx_safe u = ?a
                                \<longrightarrow> mtx_nonce u < mtx_nonce t)
                          \<and> ((\<forall>u \<in> set (multisig_transactions (db s)).
                                 mtx_ethereum_tx u \<noteq> None \<longrightarrow> mtx_safe u \<noteq> ?a)
                               \<longrightarrow> - 1 < mtx_nonce t)))
             (multisig_transactions (db s))"
    unfolding txs by (simp only: qd)
  have keep: "\<forall>t \<in> set (multisig_transactions (db s)). mtx_ethereum_tx t \<noteq> None \<longrightarrow>
           t \<in> set (multisig_transactions (db (snd (process_decoded_transaction_impl e itd s))))"
    unfolding txs by (auto simp: queued_def)
  have a1: "address ?st1 = address st" by simp
  have c: "map_option master_copy
          (safe_last_status_cache (snd (process_decoded_transaction_impl e itd s)) (address st))
         = Some mc"
    using store_new_safe_status_result(1) [of ?st1 "decoded_internal_tx itd"
        "s3\<lparr>db := delete_queued ?a (db s3)\<rparr>"]
    unfolding a1 by (simp add: impl)
  have l: "map_option master_copy
          (safe_last_statuses (db (snd (process_decoded_transaction_impl e itd s))) (address st))
         = Some mc"
    using store_new_safe_status_result(2) [of ?st1 "decoded_internal_tx itd"
        "s3\<lparr>db := delete_queued ?a (db s3)\<rparr>"]
    unfolding a1 by (simp add: impl)
  from r del keep c l show ?thesis by blast
qed

lemma example_version_lookup:
  "fst (get_safe_version_from_master_copy ''0xM1'' example_processor) = Some ''1.1.1''"
  "fst (get_safe_version_from_master_copy ''0xM2'' example_processor) = Some ''1.3.0''"
  by (simp_all add: get_safe_version_from_master_copy_def get_version_for_address_def Let_def
      example_processor_def example_db_def)

theorem change_master_copy_deletes_queued_witness:
  "\<not> gas_used (decoded_internal_tx example_change_master_copy) < 1000
   \<and> function_name example_change_master_copy = ''changeMasterCopy''
   \<and> arg_str (arguments example_change_master_copy) ''_masterCopy'' = Some ''0xM2''
   \<and> fst (get_safe_version_from_master_copy (master_copy example_status) example_processor)
       = Some ''1.1.1''
   \<and> fst (get_safe_version_from_master_copy ''0xM2'' example_processor) = Some ''1.3.0''
   \<and> is_version_breaking_signatures (Version example_env) ''1.1.1'' ''1.3.0'' = Some True
   \<and> multisig_transactions (db example_processor)
       = [example_multisig_transaction 10 0 True, example_multisig_transaction 11 0 False,
          example_multisig_transaction 1 1 False, example_multisig_transaction 2 2 False,
          (example_multisig_transaction 12 5 False)\<lparr>mtx_safe := ''0xB''\<rparr>]
   \<and> fst (process_decoded_transaction_impl example_env example_change_master_copy
             example_processor) = Inr True
   \<and> multisig_transactions
        (db (snd (process_decoded_transaction_impl example_env example_change_master_copy
                    example_processor)))
       = [example_multisig_transaction 10 0 True, example_multisig_transaction 11 0 False,
          (example_multisig_transaction 12 5 False)\<lparr>mtx_safe := ''0xB''\<rparr>]
   \<and> map_option master_copy
         (safe_last_status_cache
            (snd (process_decoded_transaction_impl example_env example_change_master_copy
                    example_processor)) ''0xA'') = Some ''0xM2''"
proof -
  have gas: "\<not> gas_used (decoded_internal_tx example_change_master_copy) < 1000"
    by (simp add: example_change_master_copy_def example_call_def example_internal_tx_def)
  have fn: "function_name example_change_master_copy = ''changeMasterCopy''"
    by (simp add: example_change_master_copy_def example_call_def)
  have a: "itx_from (decoded_internal_tx example_change_master_copy) = ''0xA''"
    by (simp add: example_change_master_copy_def example_call_def example_internal_tx_def)
  have st: "get_last_safe_status_for_address
              (itx_from (decoded_internal_tx example_change_master_copy)) example_processor
            = (Some example_status, example_processor)"
    using example_status_lookup by (simp add: a)
  have mc: "arg_str (arguments example_change_master_copy) ''_masterCopy'' = Some ''0xM2''"
    by (simp add: example_change_master_copy_def example_call_def arg_str_def)
  have old: "fst (get_safe_version_from_master_copy (master_copy example_status)
                    example_processor) = Some ''1.1.1''"
    using example_version_lookup(1) by (simp add: example_status_def)
  note new = example_version_lookup(2)
  have ne: "''1.1.1'' \<noteq> []" "''1.3.0'' \<noteq> []"
    by simp_all
  have va: "Version example_env ''1.1.1'' = Some (0, [1, 1, 1])"
    by (simp add: example_env_def Version_table_def)
  have vb: "Version example_env ''1.3.0'' = Some (0, [1, 3, 0])"
    by (simp add: example_env_def Version_table_def)
  have breaking: "is_version_breaking_signatures (Version example_env) ''1.1.1'' ''1.3.0'' = Some True"
    unfolding is_version_breaking_signatures_def va vb
    by (simp add: signature_breaking_versions_def version_less_def version_le_def cmpkey_def
        strip_trailing_zeros_def)
  have txs: "multisig_transactions (db example_processor)
       = [example_multisig_transaction 10 0 True, example_multisig_transaction 11 0 False,
          example_multisig_transaction 1 1 False, example_multisig_transaction 2 2 False,
          (example_multisig_transaction 12 5 False)\<lparr>mtx_safe := ''0xB''\<rparr>]"
    by (simp add: example_processor_def example_db_def)
  have f: "mtx_safe (example_multisig_transaction h n x) = ''0xA''"
    "mtx_nonce (example_multisig_transaction h n x) = int n"
    "mtx_ethereum_tx (example_multisig_transaction h n True) \<noteq> None"
    "mtx_ethereum_tx (example_multisig_transaction h n False) = None" for h n x
    by (simp_all add: example_multisig_transaction_def)
  have addr: "address example_status = ''0xA''"
    by (simp add: example_status_def)
  note t = change_master_copy_deletes_queued [OF gas fn st mc old ne(1) new ne(2) breaking]
  from t have left: "multisig_transactions
        (db (snd (process_decoded_transaction_impl example_env example_change_master_copy
                    example_processor)))
       = [example_multisig_transaction 10 0 True, example_multisig_transaction 11 0 False,
          (example_multisig_transaction 12 5 False)\<lparr>mtx_safe := ''0xB''\<rparr>]"
    by (simp add: a txs f)
  from t gas fn mc old new breaking txs left addr show ?thesis
    by simp
qed

subsection \<open>Module transactions and hash approvals\<close>

lemma example_call_fields:
  "\<not> gas_used (decoded_internal_tx (example_call i f args)) < 1000"
  "function_name (example_call i f args) = f"
  "itx_from (decoded_internal_tx (example_call i f args)) = ''0xA''"
  "arguments (example_call i f args) = map_of args"
  "internal_tx_id (decoded_internal_tx (example_call i f args)) = i"
  by (simp_all add: example_call_def example_internal_tx_def)

lemma module_tables_frames [simp]:
  "module_transactions (get_or_create_relevant_transaction r d) = module_transactions d"
  "safe_last_statuses (get_or_create_relevant_transaction r d) = safe_last_statuses d"
  "safe_last_statuses (get_or_create_module_transaction m d) = safe_last_statuses d"
  by (simp_all add: get_or_create_relevant_transaction_def get_or_create_module_transaction_def)










text \<open>
  C9. The specification says that in both lookups of the previous trace an RPC error ends as
  \<^verbatim>\<open>CannotFindPreviousTrace\<close>. With a tracing client that raises \<^verbatim>\<open>Web3RPCError\<close>, the
  module call without a \<^verbatim>\<open>module\<close> argument does raise \<^verbatim>\<open>CannotFindPreviousTrace\<close>, but
  the \<^verbatim>\<open>approveHash\<close> call without an \<^verbatim>\<open>owner\<close> argument raises the \<^verbatim>\<open>Web3RPCError\<close>
  itself.
\<close>

theorem approve_hash_lets_rpc_error_through:
  "get_previous_trace example_env_rpc_error
     (tx_hash (itx_ethereum_tx (decoded_internal_tx example_approve_hash)))
     (trace_address (decoded_internal_tx example_approve_hash)) = RaisesWeb3RPCError
   \<and> fst (process_decoded_transaction_impl example_env_rpc_error example_module_call_traced
             example_processor) = Inl CannotFindPreviousTrace
   \<and> fst (process_decoded_transaction_impl example_env_rpc_error example_approve_hash
             example_processor) = Inl Web3RPCError"
proof -
  have st1: "get_last_safe_status_for_address
              (itx_from (decoded_internal_tx example_module_call_traced)) example_processor
            = (Some example_status, example_processor)"
    using example_status_lookup by (simp add: example_module_call_traced_def example_call_fields)
  have st2: "get_last_safe_status_for_address
              (itx_from (decoded_internal_tx example_approve_hash)) example_processor
            = (Some example_status, example_processor)"
    using example_status_lookup by (simp add: example_approve_hash_def example_call_fields)
  have rpc: "get_previous_trace example_env_rpc_error h t = RaisesWeb3RPCError" for h t
    by (simp add: example_env_rpc_error_def)
  have impl1: "process_decoded_transaction_impl example_env_rpc_error example_module_call_traced
        example_processor
      = process_module_transaction example_env_rpc_error
          (decoded_internal_tx example_module_call_traced)
          (arguments example_module_call_traced) example_processor"
    by (rule impl_module [OF _ _ st1])
       (simp_all add: example_module_call_traced_def example_call_fields)
  have impl2: "process_decoded_transaction_impl example_env_rpc_error example_approve_hash
        example_processor
      = process_approve_hash example_env_rpc_error (decoded_internal_tx example_approve_hash)
          (arguments example_approve_hash) example_processor"
    by (rule impl_approve_hash [OF _ _ st2])
       (simp_all add: example_approve_hash_def example_call_fields)
  have m: "resolve_module_address example_env_rpc_error
             (decoded_internal_tx example_module_call_traced)
             (arguments example_module_call_traced) = Inl CannotFindPreviousTrace"
    by (simp add: resolve_module_address_def rpc example_module_call_traced_def
        example_call_fields dom_def)
  have o: "resolve_approving_owner example_env_rpc_error
             (decoded_internal_tx example_approve_hash)
             (arguments example_approve_hash) = Inl Web3RPCError"
    by (simp add: resolve_approving_owner_def rpc example_approve_hash_def
        example_call_fields dom_def)
  have h: "arg_str (arguments example_approve_hash) ''hashToApprove'' = Some ''0xH''"
    by (simp add: example_approve_hash_def example_call_fields arg_str_def)
  have r1: "fst (process_decoded_transaction_impl example_env_rpc_error
                   example_module_call_traced example_processor) = Inl CannotFindPreviousTrace"
    by (simp add: impl1 process_module_transaction_def m)
  have r2: "fst (process_decoded_transaction_impl example_env_rpc_error example_approve_hash
             example_processor) = Inl Web3RPCError"
    by (simp add: impl2 process_approve_hash_def h o)
  from rpc r1 r2 show ?thesis by blast
qed

subsection \<open>Processing one call never writes the processed flag\<close>

lemma processed_flags_db:
  "processed d = processed (db s) \<Longrightarrow> processed_updates d = processed_updates (db s) \<Longrightarrow>
     processed_flags (s\<lparr>db := d\<rparr>) = processed_flags s"
  by (simp add: processed_flags_def)

lemma processed_flags_store_new_safe_status [simp]:
  "processed_flags (store_new_safe_status st itx s) = processed_flags s"
  by (simp add: processed_flags_def store_new_safe_status_result)

lemma processed_flags_mutate_in_place [simp]:
  "processed_flags (mutate_in_place a st s) = processed_flags s"
  by (simp add: processed_flags_def mutate_in_place_frame)

lemma processed_flags_get_last_safe_status_for_address:
  "get_last_safe_status_for_address a s = (r, s0) \<Longrightarrow> processed_flags s0 = processed_flags s"
  by (simp add: processed_flags_def get_last_safe_status_for_address_frame)

lemma processed_flags_swap_owner:
  "swap_owner itx st owner new_owner s = (r, s') \<Longrightarrow> processed_flags s' = processed_flags s"
  by (auto simp: swap_owner_def Let_def processed_flags_def split: if_splits)

lemma processed_flags_process_setup:
  "process_setup itx args s = (r, s') \<Longrightarrow> processed_flags s' = processed_flags s"
  by (auto simp: process_setup_def Let_def processed_flags_db split: option.splits)

lemma processed_flags_process_owner_modification:
  "process_owner_modification itx f args st s = (r, s') \<Longrightarrow> processed_flags s' = processed_flags s"
  by (auto simp: process_owner_modification_def Let_def
      split: option.splits if_splits prod.splits sum.splits dest: processed_flags_swap_owner)

lemma processed_flags_process_swap_owner:
  "process_swap_owner itx args st s = (r, s') \<Longrightarrow> processed_flags s' = processed_flags s"
  by (auto simp: process_swap_owner_def
      split: option.splits prod.splits sum.splits dest: processed_flags_swap_owner)

lemma processed_flags_process_change_threshold:
  "process_change_threshold itx args st s = (r, s') \<Longrightarrow> processed_flags s' = processed_flags s"
  by (auto simp: process_change_threshold_def split: option.splits)

lemma processed_flags_get_safe_version_from_master_copy:
  "get_safe_version_from_master_copy a s = (v, s') \<Longrightarrow> processed_flags s' = processed_flags s"
  by (simp add: processed_flags_def get_safe_version_from_master_copy_frame)

lemma processed_flags_process_change_master_copy:
  assumes "process_change_master_copy e itx args st s = (r, s')"
  shows "processed_flags s' = processed_flags s"
proof -
  obtain ov s1 where l1: "get_safe_version_from_master_copy (master_copy st) s = (ov, s1)"
    by (cases "get_safe_version_from_master_copy (master_copy st) s")
  note f1 = processed_flags_get_safe_version_from_master_copy [OF l1]
  show ?thesis
  proof (cases "arg_str args ''_masterCopy''")
    case None
    with assms l1 f1 show ?thesis by (simp add: process_change_master_copy_def)
  next
    case (Some mc)
    obtain nv s3 where l2: "get_safe_version_from_master_copy mc
        (mutate_in_place (itx_from itx) (st\<lparr>master_copy := mc\<rparr>) s1) = (nv, s3)"
      by (cases "get_safe_version_from_master_copy mc
        (mutate_in_place (itx_from itx) (st\<lparr>master_copy := mc\<rparr>) s1)")
    from processed_flags_get_safe_version_from_master_copy [OF l2] f1
    have f3: "processed_flags s3 = processed_flags s" by simp
    let ?st1 = "st\<lparr>master_copy := mc\<rparr>"
    have a: "processed_flags (store_new_safe_status ?st1 itx s3) = processed_flags s"
      using f3 by simp
    have "processed_flags (s3\<lparr>db := delete_queued (itx_from itx) (db s3)\<rparr>)
        = processed_flags s3"
      by (rule processed_flags_db) simp_all
    then have b: "processed_flags
          (store_new_safe_status ?st1 itx (s3\<lparr>db := delete_queued (itx_from itx) (db s3)\<rparr>))
        = processed_flags s"
      using f3 by simp
    have "s' = s3 \<or> s' = store_new_safe_status ?st1 itx s3
        \<or> s' = store_new_safe_status ?st1 itx
                   (s3\<lparr>db := delete_queued (itx_from itx) (db s3)\<rparr>)"
      using assms l1 l2 Some
      by (simp add: process_change_master_copy_def Let_def
          split: if_splits option.splits bool.splits)
    with a b f3 show ?thesis by auto
  qed
qed

lemma processed_flags_process_set_fallback_handler:
  "process_set_fallback_handler itx args st s = (r, s') \<Longrightarrow> processed_flags s' = processed_flags s"
  by (auto simp: process_set_fallback_handler_def split: option.splits)

lemma processed_flags_process_set_guard:
  "process_set_guard itx args st s = (r, s') \<Longrightarrow> processed_flags s' = processed_flags s"
  by (auto simp: process_set_guard_def split: option.splits)

lemma processed_flags_process_enable_module:
  "process_enable_module itx args st s = (r, s') \<Longrightarrow> processed_flags s' = processed_flags s"
  by (auto simp: process_enable_module_def split: option.splits)

lemma processed_flags_process_disable_module:
  "process_disable_module itx args st s = (r, s') \<Longrightarrow> processed_flags s' = processed_flags s"
  by (auto simp: process_disable_module_def split: option.splits sum.splits)

lemma processed_flags_process_module_transaction:
  "process_module_transaction e itx args s = (r, s') \<Longrightarrow> processed_flags s' = processed_flags s"
  by (auto simp: process_module_transaction_def Let_def processed_flags_db
      split: option.splits sum.splits)

lemma processed_flags_process_approve_hash:
  "process_approve_hash e itx args s = (r, s') \<Longrightarrow> processed_flags s' = processed_flags s"
  by (auto simp: process_approve_hash_def Let_def processed_flags_def
      split: option.splits sum.splits prod.splits if_splits
      dest: get_or_create_confirmation_frame)

lemma processed_flags_process_exec_transaction:
  assumes "process_exec_transaction e itx args st s = (r, s')"
  shows "processed_flags s' = processed_flags s"
proof -
  obtain r1 s1 where tx: "exec_transaction_safe_tx e itx args st s = (r1, s1)"
    by (cases "exec_transaction_safe_tx e itx args st s")
  from exec_transaction_safe_tx_frame [OF tx]
  have f: "processed_flags s1 = processed_flags s" by (simp add: processed_flags_def)
  show ?thesis
  proof (cases r1)
    case None
    with assms tx f show ?thesis by (simp add: process_exec_transaction_def)
  next
    case (Some p)
    obtain n stx where p: "p = (n, stx)" by (cases p)
    have "processed_flags (s1\<lparr>db := store_exec_transaction e itx stx (db s1)\<rparr>)
        = processed_flags s1"
      by (rule processed_flags_db) simp_all
    with assms tx f Some p show ?thesis
      by (auto simp: process_exec_transaction_def)
  qed
qed

lemmas processed_flags_branches =
  processed_flags_process_setup processed_flags_process_owner_modification
  processed_flags_process_swap_owner processed_flags_process_change_threshold
  processed_flags_process_change_master_copy processed_flags_process_set_fallback_handler
  processed_flags_process_set_guard processed_flags_process_enable_module
  processed_flags_process_disable_module processed_flags_process_module_transaction
  processed_flags_process_approve_hash processed_flags_process_exec_transaction

lemma processed_flags_process_decoded_transaction_impl:
  assumes "process_decoded_transaction_impl e itd s = (r, s')"
  shows "processed_flags s' = processed_flags s"
proof (cases "gas_used (decoded_internal_tx itd) < 1000")
  case True
  with assms show ?thesis by (simp add: process_decoded_transaction_impl_def)
next
  case gas: False
  show ?thesis
  proof (cases "function_name itd = ''setup'' \<and> itx_from (decoded_internal_tx itd) \<noteq> NULL_ADDRESS")
    case True
    with assms gas show ?thesis
      by (auto simp: process_decoded_transaction_impl_def dest: processed_flags_process_setup)
  next
    case nosetup: False
    obtain r0 s0 where
      st: "get_last_safe_status_for_address (itx_from (decoded_internal_tx itd)) s = (r0, s0)"
      by (cases "get_last_safe_status_for_address (itx_from (decoded_internal_tx itd)) s")
    note f0 = processed_flags_get_last_safe_status_for_address [OF st]
    show ?thesis
    proof (cases r0)
      case None
      with assms gas nosetup st f0 show ?thesis
        by (auto simp: process_decoded_transaction_impl_def)
    next
      case (Some safe_last_status)
      with assms gas nosetup st have "processed_flags s' = processed_flags s0"
        by (auto simp: process_decoded_transaction_impl_def Let_def split: if_splits
            dest: processed_flags_branches)
      with f0 show ?thesis by simp
    qed
  qed
qed

subsection \<open>The batch\<close>

lemma process_loop_result:
  assumes "process_loop e banned_addresses itds results ids s = (Inr (results', ids'), s')"
  shows "ids' = ids @ map (\<lambda>itd. internal_tx_id (decoded_internal_tx itd)) itds
     \<and> length results' = length results + length itds
     \<and> processed_flags s' = processed_flags s"
  using assms
proof (induction itds arbitrary: results ids s)
  case Nil
  then show ?case by simp
next
  case (Cons itd rest)
  let ?ids = "ids @ [internal_tx_id (decoded_internal_tx itd)]"
  show ?case
  proof (cases "itx_from (decoded_internal_tx itd) \<in> banned_addresses")
    case True
    with Cons.prems
    have "process_loop e banned_addresses rest (results @ [False]) ?ids s = (Inr (results', ids'), s')"
      by (simp add: Let_def)
    from Cons.IH [OF this] show ?thesis by simp
  next
    case False
    obtain r s1 where impl: "process_decoded_transaction_impl e itd s = (r, s1)"
      by (cases "process_decoded_transaction_impl e itd s")
    note fl = processed_flags_process_decoded_transaction_impl [OF impl]
    show ?thesis
    proof (cases r)
      case (Inr result)
      with Cons.prems False impl
      have "process_loop e banned_addresses rest (results @ [result]) ?ids s1
              = (Inr (results', ids'), s')"
        by (simp add: Let_def)
      from Cons.IH [OF this] fl show ?thesis by simp
    next
      case (Inl err)
      with Cons.prems False impl
      have "process_loop e banned_addresses rest (results @ [False]) ?ids s1
              = (Inr (results', ids'), s')"
        by (simp add: Let_def split: if_splits)
      from Cons.IH [OF this] fl show ?thesis by simp
    qed
  qed
qed

lemma clear_caches_db [simp]: "db (clear_caches as s) = db s"
  by (induction as arbitrary: s) (simp_all add: clear_cache_def)

text \<open>
  C4. When the batch returns its list of results (no call has aborted it), there is one
  result per input call, and the processed flags were written by exactly one bulk update,
  issued for the keys of all the input calls in their order, whether a call succeeded,
  was rejected or belonged to a banned Safe; an empty batch writes nothing.
\<close>

theorem every_call_is_marked_processed_once:
  assumes "process_decoded_transactions e itds s = (Inr results, s')"
  shows "length results = length itds
     \<and> processed_updates (db s')
         = processed_updates (db s)
           @ (if itds = [] then []
              else [map (\<lambda>itd. internal_tx_id (decoded_internal_tx itd)) itds])
     \<and> processed (db s')
         = processed (db s) \<union> (\<lambda>itd. internal_tx_id (decoded_internal_tx itd)) ` set itds"
proof (cases "itds = []")
  case True
  with assms show ?thesis by (simp add: process_decoded_transactions_def)
next
  case False
  let ?cas = "remdups (map (\<lambda>itd. itx_from (decoded_internal_tx itd)) itds)"
  let ?banned = "get_banned_addresses (db s) ?cas"
  obtain r s1 where loop: "process_loop e ?banned itds [] [] s = (r, s1)"
    by (cases "process_loop e ?banned itds [] [] s")
  from assms False loop obtain ids where
    r: "r = Inr (results, ids)" and
    s': "s' = clear_caches ?cas (s1\<lparr>db := set_processed ids (db s1)\<rparr>)"
    by (auto simp: process_decoded_transactions_def Let_def split: sum.splits prod.splits)
  from process_loop_result [OF loop [unfolded r]]
  have ids: "ids = map (\<lambda>itd. internal_tx_id (decoded_internal_tx itd)) itds"
    and len: "length results = length itds"
    and fl: "processed_flags s1 = processed_flags s"
    by simp_all
  from fl have "processed (db s1) = processed (db s)"
    "processed_updates (db s1) = processed_updates (db s)"
    by (simp_all add: processed_flags_def)
  with False len show ?thesis
    by (simp add: s' set_processed_def ids)
qed

lemma process_loop_error:
  assumes "process_loop e banned_addresses itds results ids s = (Inl err, s')"
    and "is_TxProcessorException err"
  shows "err = CannotFindPreviousTrace"
  using assms
proof (induction itds arbitrary: results ids s)
  case Nil
  then show ?case by simp
next
  case (Cons itd rest)
  let ?ids = "ids @ [internal_tx_id (decoded_internal_tx itd)]"
  show ?case
  proof (cases "itx_from (decoded_internal_tx itd) \<in> banned_addresses")
    case True
    with Cons.prems
    have "process_loop e banned_addresses rest (results @ [False]) ?ids s = (Inl err, s')"
      by (simp add: Let_def)
    from Cons.IH [OF this Cons.prems(2)] show ?thesis .
  next
    case False
    obtain r s1 where impl: "process_decoded_transaction_impl e itd s = (r, s1)"
      by (cases "process_decoded_transaction_impl e itd s")
    show ?thesis
    proof (cases r)
      case (Inr result)
      with Cons.prems False impl
      have "process_loop e banned_addresses rest (results @ [result]) ?ids s1 = (Inl err, s')"
        by (simp add: Let_def)
      from Cons.IH [OF this Cons.prems(2)] show ?thesis .
    next
      case (Inl err1)
      show ?thesis
      proof (cases "err1 = CannotFindPreviousTrace")
        case True
        with Cons.prems False impl Inl show ?thesis by (simp add: Let_def)
      next
        case other: False
        show ?thesis
        proof (cases "is_TxProcessorException err1")
          case True
          with Cons.prems False impl Inl other
          have "process_loop e banned_addresses rest (results @ [False]) ?ids s1 = (Inl err, s')"
            by (simp add: Let_def)
          from Cons.IH [OF this Cons.prems(2)] show ?thesis .
        next
          case False
          with Cons.prems \<open>itx_from (decoded_internal_tx itd) \<notin> banned_addresses\<close> impl Inl other
          have "err = err1" by (simp add: Let_def)
          with False Cons.prems(2) show ?thesis by simp
        qed
      qed
    qed
  qed
qed

lemma process_decoded_transactions_error:
  assumes "process_decoded_transactions e itds s = (Inl err, s')"
  shows "db s' = db s
     \<and> (\<exists>s1. process_loop e
                (get_banned_addresses (db s)
                   (remdups (map (\<lambda>itd. itx_from (decoded_internal_tx itd)) itds)))
                itds [] [] s = (Inl err, s1))"
  using assms
  by (auto simp: process_decoded_transactions_def Let_def split: if_splits sum.splits prod.splits)

lemma process_loop_append:
  "process_loop e banned_addresses (pre @ post) results ids s =
     (case process_loop e banned_addresses pre results ids s of
        (Inr (rs, ids'), s1) \<Rightarrow> process_loop e banned_addresses post rs ids' s1
      | (Inl err, s1) \<Rightarrow> (Inl err, s1))"
proof (induction pre arbitrary: results ids s)
  case Nil
  show ?case by simp
next
  case (Cons itd pre)
  show ?case
    by (simp add: Let_def Cons.IH split: prod.splits sum.splits)
qed

lemma process_loop_results_prefix:
  assumes "process_loop e banned_addresses itds results ids s = (Inr (results', ids'), s')"
  shows "\<exists>rs. results' = results @ rs"
  using assms
proof (induction itds arbitrary: results ids s)
  case Nil
  then show ?case by simp
next
  case (Cons itd rest)
  from Cons.prems obtain x s1 where
    "process_loop e banned_addresses rest (results @ [x])
       (ids @ [internal_tx_id (decoded_internal_tx itd)]) s1 = (Inr (results', ids'), s')"
    by (auto simp: Let_def split: if_splits prod.splits sum.splits)
  from Cons.IH [OF this] obtain rs where "results' = (results @ [x]) @ rs" ..
  then show ?case by simp
qed

text \<open>
  C1. Take a batch and one of its calls, of a Safe that is not banned, and let the calls
  before it have been processed; the processing of the call raises a
  \<^verbatim>\<open>TxProcessorException\<close>. When the exception is not \<^verbatim>\<open>CannotFindPreviousTrace\<close> it is
  absorbed: the batch goes on with the calls that follow, from the state the call left,
  with \<open>False\<close> recorded for the call, so that a batch that returns has one result per
  call, the results of the earlier calls unchanged and \<open>False\<close> at the position of the
  call. When it is \<^verbatim>\<open>CannotFindPreviousTrace\<close> the batch stops at once: no later call is
  processed, the batch ends with \<^verbatim>\<open>CannotFindPreviousTrace\<close> and the database is the one
  it started with. Of the \<^verbatim>\<open>TxProcessorException\<close> kinds \<^verbatim>\<open>CannotFindPreviousTrace\<close> is the
  only one a batch ends with.
\<close>

theorem batch_absorbs_processor_errors_except_missing_trace:
  assumes itds: "itds = pre @ itd # post"
    and cas: "contract_addresses = remdups (map (\<lambda>itd. itx_from (decoded_internal_tx itd)) itds)"
    and banned: "banned_addresses = get_banned_addresses (db s) contract_addresses"
    and nb: "itx_from (decoded_internal_tx itd) \<notin> banned_addresses"
    and pre: "process_loop e banned_addresses pre [] [] s = (Inr (rs, ids), s1)"
    and raises: "process_decoded_transaction_impl e itd s1 = (Inl err, s2)"
    and tx: "is_TxProcessorException err"
  shows "(err \<noteq> CannotFindPreviousTrace \<longrightarrow>
            process_decoded_transactions e itds s
              = (case process_loop e banned_addresses post (rs @ [False])
                        (ids @ [internal_tx_id (decoded_internal_tx itd)]) s2 of
                   (Inr (results, internal_tx_ids), s3) \<Rightarrow>
                     (Inr results,
                      clear_caches contract_addresses
                        (s3\<lparr>db := set_processed internal_tx_ids (db s3)\<rparr>))
                 | (Inl err', s3) \<Rightarrow>
                     (Inl err', clear_caches contract_addresses (s3\<lparr>db := db s\<rparr>)))
            \<and> (\<forall>results s'. process_decoded_transactions e itds s = (Inr results, s') \<longrightarrow>
                  length results = length itds \<and> take (length pre) results = rs
                  \<and> results ! length pre = False))
     \<and> (err = CannotFindPreviousTrace \<longrightarrow>
            process_decoded_transactions e itds s
              = (Inl CannotFindPreviousTrace,
                 clear_caches contract_addresses (s2\<lparr>db := db s\<rparr>)))
     \<and> (\<forall>err' s'. process_decoded_transactions e itds s = (Inl err', s')
                    \<and> is_TxProcessorException err' \<longrightarrow> err' = CannotFindPreviousTrace)"
proof -
  let ?id = "internal_tx_id (decoded_internal_tx itd)"
  from itds have ne: "itds \<noteq> []" by simp
  have batch: "process_decoded_transactions e itds s
      = (case process_loop e banned_addresses itds [] [] s of
           (Inr (results, internal_tx_ids), s3) \<Rightarrow>
             (Inr results,
              clear_caches contract_addresses (s3\<lparr>db := set_processed internal_tx_ids (db s3)\<rparr>))
         | (Inl err', s3) \<Rightarrow> (Inl err', clear_caches contract_addresses (s3\<lparr>db := db s\<rparr>)))"
    unfolding banned cas using ne
    by (simp add: process_decoded_transactions_def Let_def cong: prod.case_cong sum.case_cong)
  have loop: "process_loop e banned_addresses itds [] [] s
      = process_loop e banned_addresses (itd # post) rs ids s1"
    unfolding itds process_loop_append pre by simp
  from process_loop_result [OF pre] have len: "length rs = length pre" by simp
  have absorbed: "process_decoded_transactions e itds s
              = (case process_loop e banned_addresses post (rs @ [False]) (ids @ [?id]) s2 of
                   (Inr (results, internal_tx_ids), s3) \<Rightarrow>
                     (Inr results,
                      clear_caches contract_addresses
                        (s3\<lparr>db := set_processed internal_tx_ids (db s3)\<rparr>))
                 | (Inl err', s3) \<Rightarrow>
                     (Inl err', clear_caches contract_addresses (s3\<lparr>db := db s\<rparr>)))"
    if other: "err \<noteq> CannotFindPreviousTrace"
    unfolding batch loop using nb raises tx other by (simp add: Let_def)
  have position: "length results = length itds \<and> take (length pre) results = rs
                  \<and> results ! length pre = False"
    if other: "err \<noteq> CannotFindPreviousTrace"
      and ret: "process_decoded_transactions e itds s = (Inr results, s')" for results s'
  proof -
    obtain r s3 where post: "process_loop e banned_addresses post (rs @ [False]) (ids @ [?id]) s2
        = (r, s3)"
      by (cases "process_loop e banned_addresses post (rs @ [False]) (ids @ [?id]) s2")
    from ret absorbed [OF other] post obtain ids' where
      r: "r = Inr (results, ids')"
      by (cases r) (auto split: prod.splits)
    from process_loop_results_prefix [OF post [unfolded r]]
    obtain rs' where res: "results = (rs @ [False]) @ rs'" ..
    from process_loop_result [OF post [unfolded r]]
    have "length results = length (rs @ [False]) + length post" by simp
    with len have l: "length results = length itds" by (simp add: itds)
    from res len have "take (length pre) results = rs" "results ! length pre = False"
      by (simp_all add: nth_append)
    with l show ?thesis by simp
  qed
  have aborted: "process_decoded_transactions e itds s
              = (Inl CannotFindPreviousTrace, clear_caches contract_addresses (s2\<lparr>db := db s\<rparr>))"
    if "err = CannotFindPreviousTrace"
    unfolding batch loop using nb raises that by (simp add: Let_def)
  have only: "err' = CannotFindPreviousTrace"
    if "process_decoded_transactions e itds s = (Inl err', s')"
      and "is_TxProcessorException err'" for err' s'
  proof -
    from process_decoded_transactions_error [OF that(1)] obtain s3 where
      "process_loop e
         (get_banned_addresses (db s)
            (remdups (map (\<lambda>itd. itx_from (decoded_internal_tx itd)) itds)))
         itds [] [] s = (Inl err', s3)"
      by blast
    from process_loop_error [OF this that(2)] show ?thesis .
  qed
  from absorbed position aborted only show ?thesis by blast
qed

subsection \<open>The example calls in a batch\<close>

lemma example_not_banned: "''0xA'' \<notin> get_banned_addresses (db example_processor) as"
  by (simp add: get_banned_addresses_def example_processor_def example_db_def)

lemma example_cache_empty: "safe_last_status_cache example_processor a = None"
  by (simp add: example_processor_def)

lemma example_remove_owner_result:
  "process_decoded_transaction_impl e example_remove_owner example_processor
     = (Inl OwnerCannotBeRemoved, example_processor)"
proof -
  have st: "get_last_safe_status_for_address
              (itx_from (decoded_internal_tx example_remove_owner)) example_processor
            = (Some example_status, example_processor)"
    using example_status_lookup by (simp add: example_remove_owner_def example_call_fields)
  have fn: "function_name example_remove_owner = ''removeOwner''
            \<or> function_name example_remove_owner = ''removeOwnerWithThreshold''"
    by (simp add: example_remove_owner_def example_call_fields)
  have impl: "process_decoded_transaction_impl e example_remove_owner example_processor
      = process_owner_modification (decoded_internal_tx example_remove_owner)
          (function_name example_remove_owner) (arguments example_remove_owner)
          example_status example_processor"
    by (rule impl_remove_owner [OF _ fn st])
       (simp add: example_remove_owner_def example_call_fields)
  have t: "arg_int_or_none (arguments example_remove_owner) ''_threshold'' = Some (Some 1)"
    by (simp add: example_remove_owner_def example_call_fields arg_int_or_none_def)
  have ow: "arg_str (arguments example_remove_owner) ''owner'' = Some ''0xO3''"
    by (simp add: example_remove_owner_def example_call_fields arg_str_def)
  have absent: "''0xO3'' \<notin> set (owners (example_status\<lparr>threshold := 1\<rparr>))"
    by (simp add: example_status_def)
  have nadd: "function_name example_remove_owner \<noteq> ''addOwnerWithThreshold''"
    by (simp add: example_remove_owner_def example_call_fields)
  show ?thesis
    unfolding impl process_owner_modification_def
    using absent nadd
    by (simp add: t ow Let_def mutate_in_place_frame(3) [OF example_cache_empty]
        swap_owner_absent)
qed

lemma example_module_call_traced_result:
  "process_decoded_transaction_impl example_env example_module_call_traced example_processor
     = (Inl CannotFindPreviousTrace, example_processor)"
proof -
  have st: "get_last_safe_status_for_address
              (itx_from (decoded_internal_tx example_module_call_traced)) example_processor
            = (Some example_status, example_processor)"
    using example_status_lookup by (simp add: example_module_call_traced_def example_call_fields)
  have impl: "process_decoded_transaction_impl example_env example_module_call_traced
        example_processor
      = process_module_transaction example_env
          (decoded_internal_tx example_module_call_traced)
          (arguments example_module_call_traced) example_processor"
    by (rule impl_module [OF _ _ st])
       (simp_all add: example_module_call_traced_def example_call_fields)
  have m: "resolve_module_address example_env
             (decoded_internal_tx example_module_call_traced)
             (arguments example_module_call_traced) = Inl CannotFindPreviousTrace"
    by (simp add: resolve_module_address_def example_env_def example_module_call_traced_def
        example_call_fields dom_def)
  show ?thesis by (simp add: impl process_module_transaction_def m)
qed

lemma example_approve_hash_result:
  "process_decoded_transaction_impl example_env_rpc_error example_approve_hash example_processor
     = (Inl Web3RPCError, example_processor)"
proof -
  have st: "get_last_safe_status_for_address
              (itx_from (decoded_internal_tx example_approve_hash)) example_processor
            = (Some example_status, example_processor)"
    using example_status_lookup by (simp add: example_approve_hash_def example_call_fields)
  have impl: "process_decoded_transaction_impl example_env_rpc_error example_approve_hash
        example_processor
      = process_approve_hash example_env_rpc_error (decoded_internal_tx example_approve_hash)
          (arguments example_approve_hash) example_processor"
    by (rule impl_approve_hash [OF _ _ st])
       (simp_all add: example_approve_hash_def example_call_fields)
  have o: "resolve_approving_owner example_env_rpc_error
             (decoded_internal_tx example_approve_hash)
             (arguments example_approve_hash) = Inl Web3RPCError"
    by (simp add: resolve_approving_owner_def example_env_rpc_error_def example_approve_hash_def
        example_call_fields dom_def)
  have h: "arg_str (arguments example_approve_hash) ''hashToApprove'' = Some ''0xH''"
    by (simp add: example_approve_hash_def example_call_fields arg_str_def)
  show ?thesis by (simp add: impl process_approve_hash_def h o)
qed

lemma example_low_gas_call_fields:
  "gas_used (decoded_internal_tx example_low_gas_call) < 1000"
  "itx_from (decoded_internal_tx example_low_gas_call) = ''0xA''"
  "internal_tx_id (decoded_internal_tx example_low_gas_call) = 2"
  by (simp_all add: example_low_gas_call_def example_internal_tx_def)

lemma example_ids:
  "internal_tx_id (decoded_internal_tx example_remove_owner) = 3"
  "internal_tx_id (decoded_internal_tx example_module_call_traced) = 6"
  "internal_tx_id (decoded_internal_tx example_approve_hash) = 7"
  "itx_from (decoded_internal_tx example_remove_owner) = ''0xA''"
  "itx_from (decoded_internal_tx example_module_call_traced) = ''0xA''"
  "itx_from (decoded_internal_tx example_approve_hash) = ''0xA''"
  by (simp_all add: example_remove_owner_def example_module_call_traced_def
      example_approve_hash_def example_call_fields)

lemma example_loop_absorbs:
  "''0xA'' \<notin> banned_addresses \<Longrightarrow>
   process_loop example_env banned_addresses [example_remove_owner, example_low_gas_call] [] []
     example_processor = (Inr ([False, False], [3, 2]), example_processor)"
  by (simp add: Let_def example_remove_owner_result example_ids example_low_gas_call_fields
      impl_low_gas)

lemma example_loop_aborts:
  "''0xA'' \<notin> banned_addresses \<Longrightarrow>
   process_loop example_env banned_addresses [example_module_call_traced, example_low_gas_call]
     [] [] example_processor = (Inl CannotFindPreviousTrace, example_processor)"
  by (simp add: Let_def example_module_call_traced_result example_ids)

lemma example_loop_rpc_error:
  "''0xA'' \<notin> banned_addresses \<Longrightarrow>
   process_loop example_env_rpc_error banned_addresses [example_approve_hash] [] []
     example_processor = (Inl Web3RPCError, example_processor)"
  by (simp add: Let_def example_approve_hash_result example_ids)

lemma example_batch_absorbs:
  "process_decoded_transactions example_env [example_remove_owner, example_low_gas_call]
     example_processor
   = (Inr [False, False],
      clear_caches [''0xA''] (example_processor\<lparr>db := set_processed [3, 2] (db example_processor)\<rparr>))"
  by (simp add: process_decoded_transactions_def Let_def example_ids example_low_gas_call_fields
      example_loop_absorbs [OF example_not_banned] del: process_loop.simps clear_caches.simps)

lemma example_batch_aborts:
  "process_decoded_transactions example_env [example_module_call_traced, example_low_gas_call]
     example_processor
   = (Inl CannotFindPreviousTrace, clear_caches [''0xA''] example_processor)"
  by (simp add: process_decoded_transactions_def Let_def example_ids example_low_gas_call_fields
      example_loop_aborts [OF example_not_banned] del: process_loop.simps clear_caches.simps)

lemma example_batch_rpc_error:
  "process_decoded_transactions example_env_rpc_error [example_approve_hash] example_processor
   = (Inl Web3RPCError, clear_caches [''0xA''] example_processor)"
  by (simp add: process_decoded_transactions_def Let_def example_ids
      example_loop_rpc_error [OF example_not_banned] del: process_loop.simps clear_caches.simps)

theorem every_call_is_marked_processed_once_witness:
  "process_decoded_transactions example_env [example_remove_owner, example_low_gas_call]
     example_processor
   = (Inr [False, False],
      clear_caches [''0xA''] (example_processor\<lparr>db := set_processed [3, 2] (db example_processor)\<rparr>))
   \<and> processed_updates
        (db (clear_caches [''0xA'']
               (example_processor\<lparr>db := set_processed [3, 2] (db example_processor)\<rparr>)))
       = [[3, 2]]
   \<and> processed
        (db (clear_caches [''0xA'']
               (example_processor\<lparr>db := set_processed [3, 2] (db example_processor)\<rparr>)))
       = {3, 2}"
proof -
  have p: "processed (db example_processor) = {}" "processed_updates (db example_processor) = []"
    by (simp_all add: example_processor_def example_db_def)
  from every_call_is_marked_processed_once [OF example_batch_absorbs] example_batch_absorbs p
  show ?thesis
    by (simp add: example_ids example_low_gas_call_fields del: clear_caches.simps)
qed

lemma impl_change_threshold:
  assumes "\<not> gas_used (decoded_internal_tx itd) < 1000"
    and "function_name itd = ''changeThreshold''"
    and "get_last_safe_status_for_address (itx_from (decoded_internal_tx itd)) s = (Some st, s0)"
  shows "process_decoded_transaction_impl e itd s =
         process_change_threshold (decoded_internal_tx itd) (arguments itd) st s0"
  using assms by (simp add: process_decoded_transaction_impl_def)

lemma get_last_safe_status_for_address_hit:
  "safe_last_status_cache s a = Some st \<Longrightarrow> get_last_safe_status_for_address a s = (Some st, s)"
  by (simp add: get_last_safe_status_for_address_def)

lemma example_change_threshold_call_result:
  assumes "get_last_safe_status_for_address ''0xA'' s = (Some st, s0)"
  shows "process_decoded_transaction_impl e
           (example_call i ''changeThreshold'' [(''_threshold'', VInt t)]) s
         = (Inr True, store_new_safe_status (st\<lparr>threshold := t\<rparr>) (example_internal_tx i 50000) s0)"
proof -
  let ?c = "example_call i ''changeThreshold'' [(''_threshold'', VInt t)]"
  have st: "get_last_safe_status_for_address (itx_from (decoded_internal_tx ?c)) s = (Some st, s0)"
    using assms by (simp add: example_call_fields)
  have impl: "process_decoded_transaction_impl e ?c s
      = process_change_threshold (decoded_internal_tx ?c) (arguments ?c) st s0"
    by (rule impl_change_threshold [OF _ _ st]) (simp_all add: example_call_fields)
  show ?thesis
    unfolding impl
    by (simp add: process_change_threshold_def example_call_fields arg_int_def example_call_def)
qed

lemma example_remove_owner_cached_result:
  assumes "safe_last_status_cache s ''0xA'' = Some st" and "''0xO3'' \<notin> set (owners st)"
  shows "process_decoded_transaction_impl e example_remove_owner s
         = (Inl OwnerCannotBeRemoved, mutate_in_place ''0xA'' (st\<lparr>threshold := 1\<rparr>) s)"
proof -
  have st: "get_last_safe_status_for_address
              (itx_from (decoded_internal_tx example_remove_owner)) s = (Some st, s)"
    using get_last_safe_status_for_address_hit [OF assms(1)] by (simp add: example_ids)
  have fn: "function_name example_remove_owner = ''removeOwner''
            \<or> function_name example_remove_owner = ''removeOwnerWithThreshold''"
    by (simp add: example_remove_owner_def example_call_fields)
  have impl: "process_decoded_transaction_impl e example_remove_owner s
      = process_owner_modification (decoded_internal_tx example_remove_owner)
          (function_name example_remove_owner) (arguments example_remove_owner) st s"
    by (rule impl_remove_owner [OF _ fn st])
       (simp add: example_remove_owner_def example_call_fields)
  have t: "arg_int_or_none (arguments example_remove_owner) ''_threshold'' = Some (Some 1)"
    by (simp add: example_remove_owner_def example_call_fields arg_int_or_none_def)
  have ow: "arg_str (arguments example_remove_owner) ''owner'' = Some ''0xO3''"
    by (simp add: example_remove_owner_def example_call_fields arg_str_def)
  have absent: "''0xO3'' \<notin> set (owners (st\<lparr>threshold := 1\<rparr>))"
    using assms(2) by simp
  have nadd: "function_name example_remove_owner \<noteq> ''addOwnerWithThreshold''"
    by (simp add: example_remove_owner_def example_call_fields)
  show ?thesis
    unfolding impl process_owner_modification_def
    using absent nadd
    by (simp add: t ow Let_def swap_owner_absent example_ids)
qed

theorem batch_absorbs_processor_errors_except_missing_trace_witness:
  "is_TxProcessorException OwnerCannotBeRemoved
   \<and> OwnerCannotBeRemoved \<noteq> CannotFindPreviousTrace
   \<and> fst (process_decoded_transaction_impl example_env example_remove_owner
            (snd (process_decoded_transaction_impl example_env example_change_threshold
                    example_processor))) = Inl OwnerCannotBeRemoved
   \<and> fst (process_decoded_transactions example_env
            [example_change_threshold, example_remove_owner, example_change_threshold_again]
            example_processor) = Inr [True, False, True]
   \<and> processed (db (snd (process_decoded_transactions example_env
            [example_change_threshold, example_remove_owner, example_change_threshold_again]
            example_processor))) = {8, 3, 9}
   \<and> fst (process_decoded_transaction_impl example_env example_module_call_traced
            (snd (process_decoded_transaction_impl example_env example_change_threshold
                    example_processor))) = Inl CannotFindPreviousTrace
   \<and> fst (process_decoded_transactions example_env
            [example_change_threshold, example_module_call_traced, example_change_threshold_again]
            example_processor) = Inl CannotFindPreviousTrace
   \<and> db (snd (process_decoded_transactions example_env
            [example_change_threshold, example_module_call_traced, example_change_threshold_again]
            example_processor)) = db example_processor"
proof -
  let ?e = example_env
  let ?ct = example_change_threshold
  let ?rm = example_remove_owner
  let ?mo = example_module_call_traced
  let ?ct' = example_change_threshold_again
  let ?banned = "get_banned_addresses (db example_processor) [''0xA'']"
  define st1 where "st1 = example_status\<lparr>threshold := 2\<rparr>\<lparr>internal_tx := example_internal_tx 8 50000\<rparr>"
  define S1 where "S1 = store_new_safe_status (example_status\<lparr>threshold := 2\<rparr>)
                          (example_internal_tx 8 50000) example_processor"
  define S2 where "S2 = mutate_in_place ''0xA'' (st1\<lparr>threshold := 1\<rparr>) S1"
  define S3 where "S3 = store_new_safe_status (st1\<lparr>threshold := 1\<rparr>\<lparr>threshold := 2\<rparr>)
                          (example_internal_tx 9 50000) S2"
  have ids: "internal_tx_id (decoded_internal_tx ?ct) = 8"
    "internal_tx_id (decoded_internal_tx ?ct') = 9"
    "itx_from (decoded_internal_tx ?ct) = ''0xA''"
    "itx_from (decoded_internal_tx ?ct') = ''0xA''"
    by (simp_all add: example_change_threshold_def example_change_threshold_again_def
        example_call_fields)
  have nb: "''0xA'' \<notin> ?banned"
    by (rule example_not_banned)
  have addr: "address example_status = ''0xA''" "address st1 = ''0xA''"
    by (simp_all add: st1_def example_status_def)
  have ow: "''0xO3'' \<notin> set (owners st1)"
    by (simp add: st1_def example_status_def)
  \<comment> \<open>the first call\<close>
  have r1: "process_decoded_transaction_impl ?e ?ct example_processor = (Inr True, S1)"
    unfolding example_change_threshold_def S1_def
    by (rule example_change_threshold_call_result [OF example_status_lookup])
  have c1: "safe_last_status_cache S1 ''0xA'' = Some st1"
    unfolding S1_def st1_def
    using store_new_safe_status_result(1) [of "example_status\<lparr>threshold := 2\<rparr>"]
    by (simp add: addr)
  have pre: "process_loop ?e ?banned [?ct] [] [] example_processor = (Inr ([True], [8]), S1)"
    using nb by (simp add: Let_def ids r1)
  \<comment> \<open>the second call raises\<close>
  have r2: "process_decoded_transaction_impl ?e ?rm S1 = (Inl OwnerCannotBeRemoved, S2)"
    unfolding S2_def by (rule example_remove_owner_cached_result [OF c1 ow])
  have c2: "safe_last_status_cache S2 ''0xA'' = Some (st1\<lparr>threshold := 1\<rparr>)"
    by (simp add: S2_def mutate_in_place_def c1)
  have m: "resolve_module_address ?e (decoded_internal_tx ?mo) (arguments ?mo)
             = Inl CannotFindPreviousTrace"
    by (simp add: resolve_module_address_def example_env_def example_module_call_traced_def
        example_call_fields dom_def)
  have st_mo: "get_last_safe_status_for_address (itx_from (decoded_internal_tx ?mo)) S1
      = (Some st1, S1)"
    using get_last_safe_status_for_address_hit [OF c1] by (simp add: example_ids)
  have "process_decoded_transaction_impl ?e ?mo S1
      = process_module_transaction ?e (decoded_internal_tx ?mo) (arguments ?mo) S1"
    by (rule impl_module [OF _ _ st_mo])
       (simp_all add: example_module_call_traced_def example_call_fields)
  then have r2': "process_decoded_transaction_impl ?e ?mo S1 = (Inl CannotFindPreviousTrace, S1)"
    by (simp add: process_module_transaction_def m)
  \<comment> \<open>the third call\<close>
  have r3: "process_decoded_transaction_impl ?e ?ct' S2 = (Inr True, S3)"
    unfolding example_change_threshold_again_def S3_def
    by (rule example_change_threshold_call_result
          [OF get_last_safe_status_for_address_hit [OF c2]])
  have post: "process_loop ?e ?banned [?ct'] [True, False] [8, 3] S2
      = (Inr ([True, False, True], [8, 3, 9]), S3)"
    using nb by (simp add: Let_def ids r3)
  have p: "processed (db S3) = {}"
    using store_new_safe_status_result(4)
    by (simp add: S3_def S2_def S1_def mutate_in_place_frame example_processor_def
        example_db_def)
  \<comment> \<open>the batch that goes on\<close>
  have cas: "[''0xA''] = remdups (map (\<lambda>itd. itx_from (decoded_internal_tx itd)) [?ct, ?rm, ?ct'])"
    by (simp add: ids example_ids)
  note t = batch_absorbs_processor_errors_except_missing_trace
    [where pre = "[?ct]" and itd = ?rm and post = "[?ct']" and e = ?e and s = example_processor
       and rs = "[True]" and ids = "[8]" and ?s1.0 = S1 and ?s2.0 = S2
       and err = OwnerCannotBeRemoved, OF _ cas refl _ pre r2]
  have batch: "process_decoded_transactions ?e [?ct, ?rm, ?ct'] example_processor
      = (Inr [True, False, True],
         clear_caches [''0xA''] (S3\<lparr>db := set_processed [8, 3, 9] (db S3)\<rparr>))"
    using t nb by (simp add: example_ids post del: process_loop.simps clear_caches.simps)
  \<comment> \<open>the batch that stops\<close>
  have cas': "[''0xA''] = remdups (map (\<lambda>itd. itx_from (decoded_internal_tx itd)) [?ct, ?mo, ?ct'])"
    by (simp add: ids example_ids)
  note t' = batch_absorbs_processor_errors_except_missing_trace
    [where pre = "[?ct]" and itd = ?mo and post = "[?ct']" and e = ?e and s = example_processor
       and rs = "[True]" and ids = "[8]" and ?s1.0 = S1 and ?s2.0 = S1
       and err = CannotFindPreviousTrace, OF _ cas' refl _ pre r2']
  have batch': "process_decoded_transactions ?e [?ct, ?mo, ?ct'] example_processor
      = (Inl CannotFindPreviousTrace,
         clear_caches [''0xA''] (S1\<lparr>db := db example_processor\<rparr>))"
    using t' nb by (simp add: example_ids del: process_loop.simps clear_caches.simps)
  show ?thesis
    using p by (simp add: batch batch' r1 r2 r2' set_processed_def del: clear_caches.simps)
qed

subsection \<open>The cache around a batch\<close>






subsection \<open>Which cache entries a call writes\<close>







lemma touches_only_get_safe_version_from_master_copy:
  "keyed_by_address s \<Longrightarrow> get_safe_version_from_master_copy mc s = (v, s') \<Longrightarrow>
   touches_only a s s'"
  using get_safe_version_from_master_copy_frame [of mc s v s']
  by (simp add: touches_only_def keyed_by_address_def)




lemma safe_last_statuses_frames [simp]:
  "safe_last_statuses (save_multisig_transaction t d) = safe_last_statuses d"
  "safe_last_statuses (save_confirmation c d) = safe_last_statuses d"
  "safe_last_statuses (delete_queued a d) = safe_last_statuses d"
  "safe_last_statuses (remove_unused_confirmations a n ow d) = safe_last_statuses d"
  "safe_last_statuses (remove_delegates_for_owner_in_safe a ow d) = safe_last_statuses d"
  by (simp_all add: save_multisig_transaction_def save_confirmation_def delete_queued_def
      remove_unused_confirmations_def remove_delegates_for_owner_in_safe_def)

lemma get_or_create_confirmation_last_statuses:
  "get_or_create_confirmation c d = (c', d') \<Longrightarrow> safe_last_statuses d' = safe_last_statuses d"
  by (auto simp: get_or_create_confirmation_def split: option.splits)

lemma get_or_create_multisig_transaction_last_statuses:
  "get_or_create_multisig_transaction t d = (t', d') \<Longrightarrow>
   safe_last_statuses d' = safe_last_statuses d"
  by (auto simp: get_or_create_multisig_transaction_def split: option.splits)

lemma store_confirmations_last_statuses [simp]:
  "safe_last_statuses (store_confirmations itx h sgs d) = safe_last_statuses d"
proof (induction sgs arbitrary: d)
  case Nil
  show ?case by simp
next
  case (Cons sg sgs)
  show ?case
    by (auto simp: Cons.IH Let_def split: prod.splits
        dest: get_or_create_confirmation_last_statuses)
qed

lemma store_exec_transaction_last_statuses [simp]:
  "safe_last_statuses (store_exec_transaction e itx stx d) = safe_last_statuses d"
  by (auto simp: store_exec_transaction_def Let_def split: prod.splits
      dest: get_or_create_multisig_transaction_last_statuses)























subsection \<open>The cache between two uses of the processor\<close>














end
